theory Spec2Isabelle
  imports Main
begin

section \<open>The confession bot: moderated numbering and rate control (src/bot.js)\<close>

text \<open>
  The bot keeps all of its state in Firestore documents. Every document that the
  verified operations touch is modelled by a record or a map, every handler by a
  function from the store (and the clock readings the handler takes) to a reply and the
  new store. Clock readings (\<^verbatim>\<open>Date.now()\<close>, \<^verbatim>\<open>new Date()\<close>) are milliseconds
  as \<open>int\<close>; Telegram user ids are \<open>int\<close>.

  Firestore and Telegram are services outside the program. Firestore is taken to answer:
  a read returns the document, a write is applied, and an \<^verbatim>\<open>update\<close> of a document
  that does not exist fails, as Firestore defines it. A transaction may fail to commit;
  that outcome is an argument of the function that runs the transaction. A call to
  Telegram may fail; inside a \<^verbatim>\<open>try\<close> block that outcome is an argument of the
  handler, since the \<^verbatim>\<open>catch\<close> decides the reply and skips the rest of the block.
  Notifications to admins and users catch their own errors and write nothing; they are
  left out.

  JavaScript numbers are doubles. The counters and timestamps of this program are
  integers far below \<open>2^53\<close>, where double arithmetic on integers is exact, so they are
  modelled by \<open>int\<close>.
\<close>

type_synonym timestamp = int
type_synonym uid = int

subsection \<open>The sequence allocator\<close>

text \<open>The document \<^verbatim>\<open>system/counters\<close>.\<close>

record counters_doc =
  confessionNumber :: int
  lastAssigned :: timestamp

datatype error = TransactionFailed

text \<open>
  \<^verbatim>\<open>getNextConfessionNumber\<close> (bot.js, lines 80-112). The body runs inside
  \<^verbatim>\<open>db.runTransaction\<close>, so the read of the counter and its write are one atomic
  step of the store. The transaction may fail to commit; then the error is rethrown
  and nothing is written: the flag \<open>commits\<close> is that outcome, chosen by the store.
\<close>

definition getNextConfessionNumber ::
  "bool \<Rightarrow> timestamp \<Rightarrow> counters_doc option \<Rightarrow> error + (int \<times> counters_doc option)" where
  "getNextConfessionNumber commits now doc =
     (if \<not> commits then Inl TransactionFailed
      else case doc of
        None \<Rightarrow> Inr (1, Some \<lparr>confessionNumber = 1, lastAssigned = now\<rparr>)
      | Some d \<Rightarrow>
          (let current = confessionNumber d; next = current + 1
           in Inr (next, Some (d\<lparr>confessionNumber := next, lastAssigned := now\<rparr>))))"

text \<open>
  A sequence of calls, each with its commit outcome and clock reading; the result is the
  list of numbers returned by the calls that succeeded, in order, and the final counter.
\<close>

fun allocate_all ::
  "(bool \<times> timestamp) list \<Rightarrow> counters_doc option \<Rightarrow> int list \<times> counters_doc option" where
  "allocate_all [] doc = ([], doc)"
| "allocate_all ((commits, now) # calls) doc =
     (case getNextConfessionNumber commits now doc of
        Inl e \<Rightarrow> allocate_all calls doc
      | Inr (n, doc') \<Rightarrow> (case allocate_all calls doc' of (ns, doc'') \<Rightarrow> (n # ns, doc'')))"

definition successes :: "(bool \<times> timestamp) list \<Rightarrow> nat" where
  "successes calls = length (filter fst calls)"

subsection \<open>JavaScript strings\<close>

text \<open>
  A JavaScript string is a sequence of UTF-16 code units and \<^verbatim>\<open>length\<close> counts
  them, so a string is a list of code units (\<open>nat\<close>). \<open>js\<close> turns an ASCII literal
  into such a list.
\<close>

type_synonym jschar = nat
type_synonym jsstring = "jschar list"

definition js :: "string \<Rightarrow> jsstring" where
  "js s = map of_char s"

text \<open>
  \<^verbatim>\<open>String.prototype.trim\<close> removes the WhiteSpace and LineTerminator code units of
  ECMAScript from both ends: TAB, LF, VT, FF, CR, SP, NBSP, U+1680, U+2000..U+200A,
  U+2028, U+2029, U+202F, U+205F, U+3000 and U+FEFF.
\<close>

definition is_space :: "jschar \<Rightarrow> bool" where
  "is_space c =
     (c \<in> {9, 10, 11, 12, 13, 32, 160, 5760, 8232, 8233, 8239, 8287, 12288, 65279}
      \<or> (8192 \<le> c \<and> c \<le> 8202))"

definition trim :: "jsstring \<Rightarrow> jsstring" where
  "trim s = rev (dropWhile is_space (rev (dropWhile is_space s)))"

text \<open>The class \<^verbatim>\<open>\w\<close>, that is \<^verbatim>\<open>[A-Za-z0-9_]\<close>.\<close>

definition is_word :: "jschar \<Rightarrow> bool" where
  "is_word c =
     ((48 \<le> c \<and> c \<le> 57) \<or> (65 \<le> c \<and> c \<le> 90) \<or> c = 95 \<or> (97 \<le> c \<and> c \<le> 122))"

text \<open>
  The flag \<^verbatim>\<open>i\<close> of a regular expression without the flag \<^verbatim>\<open>u\<close> compares code
  units after upper-casing, and never lets a code unit above 127 match an ASCII one: on
  the ASCII patterns of this program it is the comparison of ASCII letters without case.
  \<open>starts_ci p s\<close>: the lower-case ASCII pattern \<open>p\<close> matches at the start of \<open>s\<close>.
\<close>

definition lower :: "jschar \<Rightarrow> jschar" where
  "lower c = (if 65 \<le> c \<and> c \<le> 90 then c + 32 else c)"

definition starts_ci :: "string \<Rightarrow> jsstring \<Rightarrow> bool" where
  "starts_ci p s = (map lower (take (length p) s) = js p)"

text \<open>
  \<^verbatim>\<open>text.replace(re, '')\<close> for a regular expression with the flag \<^verbatim>\<open>g\<close> that
  matches no empty string: scan from the left; where the expression matches, at its
  match of length \<open>n\<close>, drop the \<open>n\<close> code units and go on behind them; elsewhere keep
  the code unit and go on with the next. \<open>m s\<close> is the length of the match of the
  expression at the start of \<open>s\<close>, if it matches there.
\<close>

fun replace_all :: "(jsstring \<Rightarrow> nat option) \<Rightarrow> jsstring \<Rightarrow> jsstring" where
  "replace_all m [] = []"
| "replace_all m (c # cs) =
     (case m (c # cs) of
        None \<Rightarrow> c # replace_all m cs
      | Some n \<Rightarrow> replace_all m (drop (n - 1) cs))"

subsection \<open>Input sanitization\<close>

text \<open>
  The four expressions of \<^verbatim>\<open>sanitizeInput\<close> (bot.js, lines 212-224).

  \<^verbatim>\<open>/<script\b[^<]*(?:(?!<\/script>)<[^<]*)*<\/script>/gi\<close>: \<^verbatim>\<open><script\<close>, a word
  boundary, then everything up to and including the first \<^verbatim>\<open></script>\<close> behind it
  (the lookahead stops the group at the first closing tag, and neither star can give
  back a code unit, since what follows each is a \<^verbatim>\<open><\<close>). \<open>close_len s\<close> is the
  number of code units of \<open>s\<close> up to the end of its first \<^verbatim>\<open></script>\<close>.
\<close>

fun close_len :: "jsstring \<Rightarrow> nat option" where
  "close_len [] = None"
| "close_len (c # cs) =
     (if starts_ci ''</script>'' (c # cs) then Some 9 else map_option Suc (close_len cs))"

definition m_script :: "jsstring \<Rightarrow> nat option" where
  "m_script s =
     (if starts_ci ''<script'' s \<and> (case drop 7 s of [] \<Rightarrow> True | x # _ \<Rightarrow> \<not> is_word x)
      then map_option (\<lambda>n. 7 + n) (close_len (drop 7 s)) else None)"

text \<open>\<^verbatim>\<open>/javascript:/gi\<close>.\<close>

definition m_javascript :: "jsstring \<Rightarrow> nat option" where
  "m_javascript s = (if starts_ci ''javascript:'' s then Some 11 else None)"

text \<open>
  \<^verbatim>\<open>/on\w+="[^"]*"/gi\<close>: \<^verbatim>\<open>on\<close>, the longest run \<open>w\<close> of word characters (one at
  least; a shorter run would be followed by a word character, not by \<^verbatim>\<open>=\<close>), then
  \<^verbatim>\<open>="\<close>, then everything up to and including the next double quote (34).
\<close>

definition m_handler :: "jsstring \<Rightarrow> nat option" where
  "m_handler s =
     (if starts_ci ''on'' s then
        (let w = takeWhile is_word (drop 2 s);
             r = drop (2 + length w) s;
             v = takeWhile (\<lambda>x. x \<noteq> 34) (drop 2 r)
         in if w \<noteq> [] \<and> take 2 r = [61, 34] \<and> 34 \<in> set (drop 2 r)
            then Some (2 + length w + 2 + length v + 1) else None)
      else None)"

text \<open>\<^verbatim>\<open>/<[^>]*>/g\<close>: a \<^verbatim>\<open><\<close> (60) and everything up to the next \<^verbatim>\<open>>\<close> (62).\<close>

definition m_tag :: "jsstring \<Rightarrow> nat option" where
  "m_tag s =
     (case s of
        [] \<Rightarrow> None
      | c # cs \<Rightarrow>
          if c = 60 \<and> 62 \<in> set cs
          then Some (1 + length (takeWhile (\<lambda>x. x \<noteq> 62) cs) + 1) else None)"

definition sanitizeInput :: "jsstring \<Rightarrow> jsstring" where
  "sanitizeInput text =
     (if text = [] then []
      else trim (replace_all m_tag (replace_all m_handler
             (replace_all m_javascript (replace_all m_script text)))))"

text \<open>
  \<^verbatim>\<open>extractHashtags\<close> (lines 284-287): the matches of \<^verbatim>\<open>/#[a-zA-Z0-9_]+/g\<close>, a
  \<^verbatim>\<open>#\<close> (35) and the longest run of word characters behind it, one at least.
\<close>

function extractHashtags :: "jsstring \<Rightarrow> jsstring list" where
  "extractHashtags [] = []"
| "extractHashtags (c # cs) =
     (if c = 35 \<and> takeWhile is_word cs \<noteq> []
      then (c # takeWhile is_word cs) # extractHashtags (dropWhile is_word cs)
      else extractHashtags cs)"
  by pat_completeness auto
termination
  by (relation "measure length") (auto simp: length_dropWhile_le less_Suc_eq_le)

subsection \<open>The documents of the store\<close>

text \<open>
  Confession ids are \<^verbatim>\<open>`confess_${userId}_${Date.now()}`\<close> and comment ids
  \<^verbatim>\<open>`comment_${Date.now()}_${userId}`\<close>: two decimal numbers in a fixed frame, so an
  id is the pair of numbers it is built from. The handlers treat ids as opaque keys.
\<close>

datatype conf_id = Confess uid timestamp

datatype status = Pending | Approved | Rejected

text \<open>
  A document of \<^verbatim>\<open>confessions\<close>. The fields \<^verbatim>\<open>confessionNumber\<close> and
  \<^verbatim>\<open>approvedAt\<close> are absent (\<open>None\<close>) until an approval writes them,
  \<^verbatim>\<open>rejectionReason\<close> and \<^verbatim>\<open>rejectedAt\<close> until a rejection does.
\<close>

record confession =
  cf_confessionId :: conf_id
  cf_userId :: uid
  cf_text :: jsstring
  cf_status :: status
  cf_createdAt :: timestamp
  cf_hashtags :: "jsstring list"
  cf_totalComments :: int
  cf_confessionNumber :: "int option"
  cf_approvedAt :: "timestamp option"
  cf_rejectionReason :: "jsstring option"
  cf_rejectedAt :: "timestamp option"

text \<open>
  A comment and a document of \<^verbatim>\<open>comments\<close> (the comment thread of one confession).
  The comment's \<^verbatim>\<open>id\<close>, \<^verbatim>\<open>timestamp\<close> and \<^verbatim>\<open>createdAt\<close> are three renderings
  of the clock, read in three consecutive statements; they are taken at one instant.
\<close>

record comment =
  cm_id :: "timestamp \<times> uid"
  cm_text :: jsstring
  cm_userId :: uid
  cm_userName :: jsstring
  cm_timestamp :: timestamp
  cm_createdAt :: timestamp

record thread =
  th_confessionId :: conf_id
  th_confessionNumber :: int
  th_confessionText :: jsstring
  th_comments :: "comment list"
  th_totalComments :: int

text \<open>
  A document of \<^verbatim>\<open>users\<close>, with the fields that the handlers below read or write.
\<close>

record profile =
  pf_followers :: "uid list"
  pf_totalConfessions :: int
  pf_reputation :: int
  pf_isActive :: bool
  pf_achievements :: "string list"
  pf_achievementCount :: int
  pf_dailyStreak :: int

text \<open>
  A document of \<^verbatim>\<open>user_cooldowns\<close> maps field names to values: the action kinds to
  the milliseconds of \<^verbatim>\<open>Date.now()\<close>, and \<^verbatim>\<open>updatedAt\<close> to an ISO date string
  (\<open>Iso\<close> of the instant it renders).
\<close>

datatype field = Millis int | Iso timestamp

type_synonym cooldown_doc = "string \<rightharpoonup> field"

text \<open>A document of \<^verbatim>\<open>user_rate_limits\<close>.\<close>

record rate_doc =
  commentTimestamps :: "timestamp list"
  rl_updatedAt :: timestamp

record store =
  system_counters :: "counters_doc option"
  confessions :: "conf_id \<rightharpoonup> confession"
  comments :: "conf_id \<rightharpoonup> thread"
  users :: "uid \<rightharpoonup> profile"
  user_cooldowns :: "uid \<rightharpoonup> cooldown_doc"
  user_rate_limits :: "uid \<rightharpoonup> rate_doc"

text \<open>The session of one chat, with the flags that the handlers below use.\<close>

record session =
  waitingForConfession :: bool
  rejectingConfession :: "conf_id option"
  waitingForComment :: "conf_id option"

text \<open>
  \<^verbatim>\<open>FieldValue.arrayUnion(v)\<close> appends \<open>v\<close> unless the array holds an equal element.
\<close>

definition arrayUnion :: "'a list \<Rightarrow> 'a \<Rightarrow> 'a list" where
  "arrayUnion xs v = (if v \<in> set xs then xs else xs @ [v])"

subsection \<open>Cooldowns\<close>

text \<open>
  \<^verbatim>\<open>!lastAction\<close> holds of the number 0; an ISO date string is not empty, and
  subtracting it from a number gives NaN, which is greater than nothing.
\<close>

definition falsy :: "field \<Rightarrow> bool" where
  "falsy v = (case v of Millis n \<Rightarrow> n = 0 | Iso t \<Rightarrow> False)"

text \<open>
  \<^verbatim>\<open>doc.data()\<close> is a plain object, so \<^verbatim>\<open>data[action]\<close> finds the fields of the
  document and, for a name that is no field, the members that every object inherits from
  \<^verbatim>\<open>Object.prototype\<close>. Each of these is a function or an object: it is not falsy, and
  subtracting it from a number gives NaN.
\<close>

definition inherited :: "string \<Rightarrow> bool" where
  "inherited a =
     (a \<in> set [''constructor'', ''toString'', ''toLocaleString'', ''valueOf'',
                ''hasOwnProperty'', ''isPrototypeOf'', ''propertyIsEnumerable'',
                ''__proto__'', ''__defineGetter__'', ''__defineSetter__'',
                ''__lookupGetter__'', ''__lookupSetter__''])"

text \<open>\<^verbatim>\<open>checkCooldown\<close> (lines 115-127); \<open>now\<close> is its reading of the clock.\<close>

definition checkCooldown :: "store \<Rightarrow> uid \<Rightarrow> string \<Rightarrow> int \<Rightarrow> timestamp \<Rightarrow> bool" where
  "checkCooldown s userId action cooldownMs now =
     (case user_cooldowns s userId of
        None \<Rightarrow> True
      | Some data \<Rightarrow>
          (case data action of
             None \<Rightarrow> if inherited action then False else True
           | Some lastAction \<Rightarrow>
               if falsy lastAction then True
               else (case lastAction of
                       Millis t \<Rightarrow> now - t > cooldownMs
                     | Iso t \<Rightarrow> False)))"

text \<open>
  \<^verbatim>\<open>setCooldown\<close> (lines 129-135): \<^verbatim>\<open>set\<close> with \<^verbatim>\<open>{ merge: true }\<close> writes the
  fields of the literal and keeps every other field of the document. In the literal
  \<^verbatim>\<open>updatedAt\<close> comes second, so it wins if the action kind has the same name.
\<close>

definition setCooldown :: "store \<Rightarrow> uid \<Rightarrow> string \<Rightarrow> timestamp \<Rightarrow> store" where
  "setCooldown s userId action now =
     s\<lparr>user_cooldowns := (user_cooldowns s)(userId \<mapsto>
         (case user_cooldowns s userId of None \<Rightarrow> Map.empty | Some data \<Rightarrow> data)
           (action \<mapsto> Millis now, ''updatedAt'' \<mapsto> Iso now))\<rparr>"

subsection \<open>The comment rate limit\<close>

text \<open>\<^verbatim>\<open>checkCommentRateLimit\<close> (lines 138-152).\<close>

definition checkCommentRateLimit :: "store \<Rightarrow> uid \<Rightarrow> int \<Rightarrow> int \<Rightarrow> timestamp \<Rightarrow> bool" where
  "checkCommentRateLimit s userId windowMs maxComments now =
     (case user_rate_limits s userId of
        None \<Rightarrow> True
      | Some data \<Rightarrow>
          (let recentComments = commentTimestamps data;
               recent = filter (\<lambda>ts. now - ts \<le> windowMs) recentComments
           in int (length recent) < maxComments))"

text \<open>
  \<^verbatim>\<open>recordComment\<close> (lines 154-191) is a transaction that records the reading
  \<open>now\<close> of the clock, and a timer that runs the clean-up one second later.
\<close>

definition recordComment :: "store \<Rightarrow> uid \<Rightarrow> timestamp \<Rightarrow> store" where
  "recordComment s userId now =
     s\<lparr>user_rate_limits := (user_rate_limits s)(userId \<mapsto>
         (case user_rate_limits s userId of
            None \<Rightarrow> \<lparr>commentTimestamps = [now], rl_updatedAt = now\<rparr>
          | Some data \<Rightarrow>
              data\<lparr>commentTimestamps := arrayUnion (commentTimestamps data) now,
                   rl_updatedAt := now\<rparr>))\<rparr>"

text \<open>
  The timer's callback (lines 175-190) reads the document, filters its timestamps and
  then updates the document. The two calls are not in a transaction, so they are two
  steps of the store and other writes may come between them: \<open>cleanup_get\<close> is the
  read, with the filtering by the reading \<open>now\<close> of the clock that follows it (nothing,
  if there is no document), \<open>cleanup_update\<close> the write of the filtered list. An \<^verbatim>\<open>update\<close> of a
  document that does not exist fails; the callback logs the error.
\<close>

definition cleanup_get :: "store \<Rightarrow> uid \<Rightarrow> timestamp \<Rightarrow> timestamp list option" where
  "cleanup_get s userId now =
     (case user_rate_limits s userId of
        None \<Rightarrow> None
      | Some data \<Rightarrow> Some (filter (\<lambda>ts. now - ts \<le> 30000) (commentTimestamps data)))"

definition cleanup_update :: "store \<Rightarrow> uid \<Rightarrow> timestamp list \<Rightarrow> store" where
  "cleanup_update s userId recent =
     (case user_rate_limits s userId of
        None \<Rightarrow> s
      | Some data \<Rightarrow>
          s\<lparr>user_rate_limits :=
               (user_rate_limits s)(userId \<mapsto> data\<lparr>commentTimestamps := recent\<rparr>)\<rparr>)"

text \<open>The timestamps stored for a user, none without a document.\<close>

definition stamps :: "store \<Rightarrow> uid \<Rightarrow> timestamp list" where
  "stamps s userId =
     (case user_rate_limits s userId of None \<Rightarrow> [] | Some data \<Rightarrow> commentTimestamps data)"

text \<open>
  A run of the rate limiter: records, reads of clean-ups and writes of clean-ups in any
  order. Beside the store, the state of a run holds the clean-ups that have read and
  not yet written, each with the user and the list it is going to write;
  \<open>CleanupUpdate i\<close> lets the \<open>i\<close>-th of them write.
\<close>

datatype rate_op = Record uid timestamp | CleanupGet uid timestamp | CleanupUpdate nat

fun rate_step ::
  "store \<times> (uid \<times> timestamp list) list \<Rightarrow> rate_op \<Rightarrow> store \<times> (uid \<times> timestamp list) list" where
  "rate_step (s, pending) (Record userId now) = (recordComment s userId now, pending)"
| "rate_step (s, pending) (CleanupGet userId now) =
     (case cleanup_get s userId now of
        None \<Rightarrow> (s, pending)
      | Some recent \<Rightarrow> (s, pending @ [(userId, recent)]))"
| "rate_step (s, pending) (CleanupUpdate i) =
     (if i < length pending
      then (cleanup_update s (fst (pending ! i)) (snd (pending ! i)),
            take i pending @ drop (Suc i) pending)
      else (s, pending))"

definition rate_run :: "store \<Rightarrow> rate_op list \<Rightarrow> store" where
  "rate_run s ops = fst (foldl rate_step (s, []) ops)"

subsection \<open>Profiles, reputation, achievements\<close>

text \<open>
  \<^verbatim>\<open>getUserProfile\<close> (lines 290-324) creates the default profile of a user who has
  none and returns the profile.
\<close>

definition newProfile :: profile where
  "newProfile =
     \<lparr>pf_followers = [], pf_totalConfessions = 0, pf_reputation = 0, pf_isActive = True,
      pf_achievements = [], pf_achievementCount = 0, pf_dailyStreak = 0\<rparr>"

definition getUserProfile :: "store \<Rightarrow> uid \<Rightarrow> profile \<times> store" where
  "getUserProfile s userId =
     (case users s userId of
        None \<Rightarrow> (newProfile, s\<lparr>users := (users s)(userId \<mapsto> newProfile)\<rparr>)
      | Some p \<Rightarrow> (p, s))"

text \<open>
  \<^verbatim>\<open>updateReputation\<close> (lines 227-236) and \<^verbatim>\<open>awardAchievement\<close> (lines 269-281):
  \<^verbatim>\<open>update\<close> fails on a missing document; both catch the error and log it.
\<close>

definition updateReputation :: "store \<Rightarrow> uid \<Rightarrow> int \<Rightarrow> store" where
  "updateReputation s userId points =
     (case users s userId of
        None \<Rightarrow> s
      | Some p \<Rightarrow> s\<lparr>users := (users s)(userId \<mapsto> p\<lparr>pf_reputation := pf_reputation p + points\<rparr>)\<rparr>)"

definition awardAchievement :: "store \<Rightarrow> uid \<Rightarrow> string \<Rightarrow> store" where
  "awardAchievement s userId achievementId =
     (case users s userId of
        None \<Rightarrow> s
      | Some p \<Rightarrow>
          s\<lparr>users := (users s)(userId \<mapsto>
               p\<lparr>pf_achievements := arrayUnion (pf_achievements p) achievementId,
                 pf_achievementCount := pf_achievementCount p + 1\<rparr>)\<rparr>)"

text \<open>\<^verbatim>\<open>checkAchievements\<close> (lines 239-267): four tests on one reading of the profile.\<close>

definition checkAchievements :: "store \<Rightarrow> uid \<Rightarrow> store" where
  "checkAchievements s userId =
     (case getUserProfile s userId of
        (profile, s0) \<Rightarrow>
          (let s1 = (if pf_totalConfessions profile \<ge> 1
                        \<and> ''first_confession'' \<notin> set (pf_achievements profile)
                     then awardAchievement s0 userId ''first_confession'' else s0);
               s2 = (if pf_totalConfessions profile \<ge> 10
                        \<and> ''ten_confessions'' \<notin> set (pf_achievements profile)
                     then awardAchievement s1 userId ''ten_confessions'' else s1);
               s3 = (if int (length (pf_followers profile)) \<ge> 50
                        \<and> ''fifty_followers'' \<notin> set (pf_achievements profile)
                     then awardAchievement s2 userId ''fifty_followers'' else s2);
               s4 = (if pf_dailyStreak profile \<ge> 7
                        \<and> ''week_streak'' \<notin> set (pf_achievements profile)
                     then awardAchievement s3 userId ''week_streak'' else s3)
           in s4))"

subsection \<open>Submitting a confession\<close>

datatype reply =
    AccountBlocked | PleaseWait "int option" | SendYourConfession
  | ConfessionTooShort | ConfessionTooLong | ConfessionSubmitted | SubmissionError
  | AccessDenied | ConfessionNotFound | ConfessionApproved int | ApprovalFailed
  | ConfessionRejected | NoReply | RejectionFailed
  | CommentTooShort | TooManyComments | ThreadNotFound | CommentAdded | CommentError

text \<open>
  The seconds to wait, \<^verbatim>\<open>Math.ceil((60000 - (Date.now() - lastSubmit)) / 1000)\<close> with
  \<^verbatim>\<open>lastSubmit = data.confession || 0\<close>; \<open>None\<close> is NaN, the result for a field that
  holds a date string.
\<close>

definition waitTime :: "cooldown_doc \<Rightarrow> timestamp \<Rightarrow> int option" where
  "waitTime data now =
     (case data ''confession'' of
        None \<Rightarrow> Some (- ((- (60000 - (now - 0))) div 1000))
      | Some v \<Rightarrow>
          if falsy v then Some (- ((- (60000 - (now - 0))) div 1000))
          else (case v of
                  Millis lastSubmit \<Rightarrow> Some (- ((- (60000 - (now - lastSubmit))) div 1000))
                | Iso t \<Rightarrow> None))"

text \<open>
  \<^verbatim>\<open>sendConfessionCommand\<close> (lines 1043-1071), the handler of the button
  \<^verbatim>\<open>Send Confession\<close>. \<open>now\<close> is the clock read by \<^verbatim>\<open>checkCooldown\<close>, \<open>now'\<close> the
  clock read for the waiting time. The handler has no \<^verbatim>\<open>try\<close> block; each of its
  paths ends with one reply.
\<close>

definition sendConfessionCommand ::
  "store \<Rightarrow> session \<Rightarrow> uid \<Rightarrow> timestamp \<Rightarrow> timestamp \<Rightarrow> reply \<times> store \<times> session" where
  "sendConfessionCommand s ses userId now now' =
     (case getUserProfile s userId of
        (profile, s1) \<Rightarrow>
          if \<not> pf_isActive profile then (AccountBlocked, s1, ses)
          else
            (let canSubmit = checkCooldown s1 userId ''confession'' 60000 now
             in if \<not> canSubmit then
                  (case user_cooldowns s1 userId of
                     Some data \<Rightarrow> (PleaseWait (waitTime data now'), s1, ses)
                   | None \<Rightarrow> (SendYourConfession, s1, ses\<lparr>waitingForConfession := True\<rparr>))
                else (SendYourConfession, s1, ses\<lparr>waitingForConfession := True\<rparr>)))"

text \<open>
  \<^verbatim>\<open>handleConfession\<close> (lines 1578-1647). The text handler (lines 672-677) calls
  it with the text of a message while \<^verbatim>\<open>waitingForConfession\<close> is set in the session
  of the user and chat; a message that is the command \<^verbatim>\<open>/checkin\<close> or \<^verbatim>\<open>/admin\<close>
  is taken by the handlers registered before (lines 338 and 379) and does not reach it.
  \<open>now\<close> is the clock read for the confession's id
  and creation date, \<open>now'\<close> the clock read by \<^verbatim>\<open>setCooldown\<close>. The update of the
  user's profile throws if the profile does not exist; the handler catches that after
  the confession has been stored. \<open>replied\<close> tells whether Telegram accepted the
  confirmation; if not, the handler catches the error and the achievements are not
  checked.
\<close>

definition handleConfession ::
  "store \<Rightarrow> session \<Rightarrow> uid \<Rightarrow> jsstring \<Rightarrow> bool \<Rightarrow> timestamp \<Rightarrow> timestamp
     \<Rightarrow> reply \<times> store \<times> session" where
  "handleConfession s ses userId text replied now now' =
     (if text = [] \<or> length (trim text) < 5
      then (ConfessionTooShort, s, ses\<lparr>waitingForConfession := False\<rparr>)
      else if length text > 1000
      then (ConfessionTooLong, s, ses\<lparr>waitingForConfession := False\<rparr>)
      else
        (let sanitizedText = sanitizeInput text;
             confessionId = Confess userId now;
             hashtags = extractHashtags sanitizedText;
             s1 = s\<lparr>confessions := (confessions s)(confessionId \<mapsto>
                    \<lparr>cf_confessionId = confessionId, cf_userId = userId,
                     cf_text = trim sanitizedText, cf_status = Pending, cf_createdAt = now,
                     cf_hashtags = hashtags, cf_totalComments = 0,
                     cf_confessionNumber = None, cf_approvedAt = None,
                     cf_rejectionReason = None, cf_rejectedAt = None\<rparr>)\<rparr>
         in case users s1 userId of
              None \<Rightarrow> (SubmissionError, s1, ses\<lparr>waitingForConfession := False\<rparr>)
            | Some p \<Rightarrow>
                (let s2 = s1\<lparr>users := (users s1)(userId \<mapsto>
                            p\<lparr>pf_totalConfessions := pf_totalConfessions p + 1\<rparr>)\<rparr>;
                     s3 = setCooldown s2 userId ''confession'' now'
                 in if replied
                    then (ConfessionSubmitted, checkAchievements s3 userId,
                          ses\<lparr>waitingForConfession := False\<rparr>)
                    else (SubmissionError, s3, ses\<lparr>waitingForConfession := False\<rparr>))))"

subsection \<open>Approving and rejecting\<close>

text \<open>
  \<^verbatim>\<open>isAdmin\<close> (lines 201-209); \<open>adminIds\<close> are the ids listed in \<^verbatim>\<open>ADMIN_IDS\<close>.
\<close>

definition isAdmin :: "uid list \<Rightarrow> uid \<Rightarrow> bool" where
  "isAdmin adminIds userId = (if userId = 0 then False else userId \<in> set adminIds)"

text \<open>\<^verbatim>\<open>createCommentSection\<close> (lines 1805-1814): \<^verbatim>\<open>set\<close> replaces the document.\<close>

definition createCommentSection :: "store \<Rightarrow> conf_id \<Rightarrow> int \<Rightarrow> jsstring \<Rightarrow> store" where
  "createCommentSection s confessionId number confessionText =
     s\<lparr>comments := (comments s)(confessionId \<mapsto>
         \<lparr>th_confessionId = confessionId, th_confessionNumber = number,
          th_confessionText = confessionText, th_comments = [], th_totalComments = 0\<rparr>)\<rparr>"

text \<open>
  \<^verbatim>\<open>postToChannel\<close> (lines 1773-1802) sends the confession to the channel, edits the
  message and then creates the comment section, all in one \<^verbatim>\<open>try\<close>: \<open>posted\<close> tells
  whether the two calls to Telegram succeeded. If they did not, the error is logged and
  the comment section is not created.
\<close>

definition postToChannel :: "store \<Rightarrow> bool \<Rightarrow> jsstring \<Rightarrow> int \<Rightarrow> conf_id \<Rightarrow> store" where
  "postToChannel s posted text number confessionId =
     (if posted then createCommentSection s confessionId number text else s)"

text \<open>
  What the world outside the store does during an approval: whether the counter's
  transaction commits, whether the channel accepts the post, and whether Telegram
  accepts the edit of the admin's message and the answer to the button.
\<close>

record outcome =
  oc_commits :: bool
  oc_posted :: bool
  oc_answered :: bool

text \<open>The handler of the button \<^verbatim>\<open>approve_<id>\<close> (lines 1675-1726).\<close>

definition approve ::
  "store \<Rightarrow> outcome \<Rightarrow> uid list \<Rightarrow> uid \<Rightarrow> conf_id \<Rightarrow> timestamp \<Rightarrow> reply \<times> store" where
  "approve s oc adminIds fromId confessionId now =
     (if \<not> isAdmin adminIds fromId then (AccessDenied, s)
      else case confessions s confessionId of
        None \<Rightarrow> (ConfessionNotFound, s)
      | Some confession \<Rightarrow>
          (case getNextConfessionNumber (oc_commits oc) now (system_counters s) of
             Inl e \<Rightarrow> (ApprovalFailed, s)
           | Inr (nextNumber, counters) \<Rightarrow>
               (let s1 = s\<lparr>system_counters := counters,
                           confessions := (confessions s)(confessionId \<mapsto>
                             confession\<lparr>cf_status := Approved,
                                        cf_confessionNumber := Some nextNumber,
                                        cf_approvedAt := Some now\<rparr>)\<rparr>;
                    s2 = postToChannel s1 (oc_posted oc) (cf_text confession) nextNumber confessionId;
                    s3 = updateReputation s2 (cf_userId confession) 10
                in if oc_answered oc
                   then (ConfessionApproved nextNumber, checkAchievements s3 (cf_userId confession))
                   else (ApprovalFailed, s3))))"

text \<open>
  \<^verbatim>\<open>handleRejection\<close> (lines 1745-1770), called for the admin's text message while
  \<^verbatim>\<open>rejectingConfession\<close> is set. For an id without a document it does nothing
  and sends no reply. \<open>replied\<close> tells whether Telegram accepted the confirmation.
\<close>

definition handleRejection ::
  "store \<Rightarrow> session \<Rightarrow> jsstring \<Rightarrow> bool \<Rightarrow> timestamp \<Rightarrow> reply \<times> store \<times> session" where
  "handleRejection s ses reason replied now =
     (case rejectingConfession ses of
        None \<Rightarrow> (RejectionFailed, s, ses\<lparr>rejectingConfession := None\<rparr>)
      | Some confessionId \<Rightarrow>
          (case confessions s confessionId of
             None \<Rightarrow> (NoReply, s, ses\<lparr>rejectingConfession := None\<rparr>)
           | Some confession \<Rightarrow>
               (if replied then ConfessionRejected else RejectionFailed,
                s\<lparr>confessions := (confessions s)(confessionId \<mapsto>
                     confession\<lparr>cf_status := Rejected, cf_rejectionReason := Some reason,
                                cf_rejectedAt := Some now\<rparr>)\<rparr>,
                ses\<lparr>rejectingConfession := None\<rparr>)))"

subsection \<open>Adding a comment\<close>

text \<open>
  \<^verbatim>\<open>addComment\<close> (lines 1873-1944), called for a text message while
  \<^verbatim>\<open>waitingForComment\<close> holds a confession id. \<open>tc\<close> is the clock read by the rate
  limit check, \<open>now\<close> the clock read for the comment, \<open>tr\<close> the clock read by
  \<^verbatim>\<open>recordComment\<close>. The two updates of the transaction are applied together; the
  transaction fails, and writes nothing, if it does not commit or if one of the two
  documents does not exist. Every error inside the \<^verbatim>\<open>try\<close> ends in the same reply,
  and what follows the failing call is skipped.
\<close>

text \<open>
  What the world outside the store does during \<^verbatim>\<open>addComment\<close>: whether the
  transaction of the comment commits, whether the transaction of \<^verbatim>\<open>recordComment\<close>
  commits, and whether Telegram accepts the confirmation.
\<close>

record comment_outcome =
  co_commits :: bool
  co_recorded :: bool
  co_replied :: bool

definition addComment ::
  "store \<Rightarrow> session \<Rightarrow> uid \<Rightarrow> jsstring \<Rightarrow> jsstring \<Rightarrow> comment_outcome
     \<Rightarrow> timestamp \<Rightarrow> timestamp \<Rightarrow> timestamp \<Rightarrow> reply \<times> store \<times> session" where
  "addComment s ses userId userName commentText co tc now tr =
     (if commentText = [] \<or> length (trim commentText) < 3 then (CommentTooShort, s, ses)
      else if \<not> checkCommentRateLimit s userId 30000 3 tc then (TooManyComments, s, ses)
      else case waitingForComment ses of
        None \<Rightarrow> (CommentError, s, ses)
      | Some confessionId \<Rightarrow>
          (case comments s confessionId of
             None \<Rightarrow> (ThreadNotFound, s, ses)
           | Some th \<Rightarrow>
               (let sanitizedComment = sanitizeInput commentText;
                    commentData =
                      \<lparr>cm_id = (now, userId), cm_text = trim sanitizedComment,
                       cm_userId = userId, cm_userName = userName,
                       cm_timestamp = now, cm_createdAt = now\<rparr>
                in case (if co_commits co then confessions s confessionId else None) of
                     None \<Rightarrow> (CommentError, s, ses)
                   | Some confession \<Rightarrow>
                       (let s1 = s\<lparr>comments := (comments s)(confessionId \<mapsto>
                                     th\<lparr>th_comments := arrayUnion (th_comments th) commentData,
                                        th_totalComments := th_totalComments th + 1\<rparr>),
                                   confessions := (confessions s)(confessionId \<mapsto>
                                     confession\<lparr>cf_totalComments :=
                                                  cf_totalComments confession + 1\<rparr>)\<rparr>;
                            s2 = recordComment s1 userId tr;
                            s3 = updateReputation s2 userId 5
                        in if \<not> co_recorded co then (CommentError, s1, ses)
                           else if \<not> co_replied co then (CommentError, s3, ses)
                           else (CommentAdded, checkAchievements s3 userId,
                                 ses\<lparr>waitingForComment := None\<rparr>)))))"

subsection \<open>Notions for the theorems\<close>

text \<open>
  A text holds a tag if the expression \<^verbatim>\<open>/<[^>]*>/\<close> matches in it: a \<^verbatim>\<open><\<close> with a
  \<^verbatim>\<open>>\<close> somewhere behind it.
\<close>

fun has_tag :: "jsstring \<Rightarrow> bool" where
  "has_tag [] = False"
| "has_tag (c # cs) = ((c = 60 \<and> 62 \<in> set cs) \<or> has_tag cs)"

text \<open>The value stored for a user under a field name, none without a document.\<close>

definition cooldown_field :: "store \<Rightarrow> uid \<Rightarrow> string \<Rightarrow> field option" where
  "cooldown_field s userId a =
     (case user_cooldowns s userId of None \<Rightarrow> None | Some data \<Rightarrow> data a)"

text \<open>The store with no document at all.\<close>

definition empty_store :: store where
  "empty_store =
     \<lparr>system_counters = None, confessions = Map.empty, comments = Map.empty,
      users = Map.empty, user_cooldowns = Map.empty, user_rate_limits = Map.empty\<rparr>"

text \<open>The profile that \<^verbatim>\<open>getUserProfile\<close> returns: the stored one, or the default.\<close>

definition prof :: "store \<Rightarrow> uid \<Rightarrow> profile" where
  "prof s userId = (case users s userId of None \<Rightarrow> newProfile | Some p \<Rightarrow> p)"

text \<open>Two profiles that differ in their achievements at most.\<close>

definition keeps_profile :: "profile \<Rightarrow> profile \<Rightarrow> bool" where
  "keeps_profile p p' =
     (pf_followers p' = pf_followers p \<and> pf_totalConfessions p' = pf_totalConfessions p
      \<and> pf_reputation p' = pf_reputation p \<and> pf_isActive p' = pf_isActive p
      \<and> pf_dailyStreak p' = pf_dailyStreak p)"

text \<open>\<open>s'\<close> is \<open>s\<close> but for the achievements of one user, whose profile was \<open>p\<close>.\<close>

definition only_profile :: "store \<Rightarrow> uid \<Rightarrow> profile \<Rightarrow> store \<Rightarrow> bool" where
  "only_profile s userId p s' =
     (\<exists>p'. s' = s\<lparr>users := (users s)(userId \<mapsto> p')\<rparr> \<and> keeps_profile p p')"

text \<open>The document that \<^verbatim>\<open>handleConfession\<close> stores.\<close>

definition pending_confession :: "uid \<Rightarrow> jsstring \<Rightarrow> timestamp \<Rightarrow> confession" where
  "pending_confession userId text now =
     \<lparr>cf_confessionId = Confess userId now, cf_userId = userId,
      cf_text = trim (sanitizeInput text), cf_status = Pending, cf_createdAt = now,
      cf_hashtags = extractHashtags (sanitizeInput text), cf_totalComments = 0,
      cf_confessionNumber = None, cf_approvedAt = None,
      cf_rejectionReason = None, cf_rejectedAt = None\<rparr>"

text \<open>A fresh session.\<close>

definition ses0 :: session where
  "ses0 = \<lparr>waitingForConfession = False, rejectingConfession = None, waitingForComment = None\<rparr>"

text \<open>The number that the next successful allocation returns.\<close>

definition next_number :: "store \<Rightarrow> int" where
  "next_number s =
     (case system_counters s of None \<Rightarrow> 1 | Some d \<Rightarrow> confessionNumber d + 1)"

text \<open>The update that an approval makes to a confession.\<close>

definition approved_as :: "confession \<Rightarrow> int \<Rightarrow> timestamp \<Rightarrow> confession" where
  "approved_as c n now =
     c\<lparr>cf_status := Approved, cf_confessionNumber := Some n, cf_approvedAt := Some now\<rparr>"

text \<open>The document that \<^verbatim>\<open>createCommentSection\<close> writes.\<close>

definition new_thread :: "conf_id \<Rightarrow> int \<Rightarrow> jsstring \<Rightarrow> thread" where
  "new_thread confessionId number confessionText =
     \<lparr>th_confessionId = confessionId, th_confessionNumber = number,
      th_confessionText = confessionText, th_comments = [], th_totalComments = 0\<rparr>"

text \<open>An approval where everything outside the store succeeds.\<close>

definition all_ok :: outcome where
  "all_ok = \<lparr>oc_commits = True, oc_posted = True, oc_answered = True\<rparr>"

text \<open>The comment that \<^verbatim>\<open>addComment\<close> builds, and its two updates.\<close>

definition commentData :: "uid \<Rightarrow> jsstring \<Rightarrow> jsstring \<Rightarrow> timestamp \<Rightarrow> comment" where
  "commentData userId userName commentText now =
     \<lparr>cm_id = (now, userId), cm_text = trim (sanitizeInput commentText),
      cm_userId = userId, cm_userName = userName, cm_timestamp = now, cm_createdAt = now\<rparr>"

definition commented :: "thread \<Rightarrow> comment \<Rightarrow> thread" where
  "commented th c =
     th\<lparr>th_comments := arrayUnion (th_comments th) c,
        th_totalComments := th_totalComments th + 1\<rparr>"

definition counted :: "confession \<Rightarrow> confession" where
  "counted confession = confession\<lparr>cf_totalComments := cf_totalComments confession + 1\<rparr>"

text \<open>
  One call of \<^verbatim>\<open>addComment\<close> with all that it takes from its context, and runs of
  such calls.
\<close>

record request =
  rq_session :: session
  rq_userId :: uid
  rq_userName :: jsstring
  rq_text :: jsstring
  rq_outcome :: comment_outcome
  rq_tc :: timestamp
  rq_now :: timestamp
  rq_tr :: timestamp











subsection \<open>Concrete stores and requests\<close>

text \<open>A store with one pending confession, of user 7.\<close>

definition one_pending :: store where
  "one_pending =
     empty_store\<lparr>confessions := [Confess 7 2000 \<mapsto> pending_confession 7 (js ''hello world'') 2000],
                 users := [7 \<mapsto> newProfile\<lparr>pf_totalConfessions := 1\<rparr>]\<rparr>"

text \<open>An approval where the channel refuses the post.\<close>

definition not_posted :: outcome where
  "not_posted = \<lparr>oc_commits = True, oc_posted = False, oc_answered = True\<rparr>"

text \<open>
  The store after an admin (99) has approved the pending confession: once with the
  channel post, once without.
\<close>

definition one_approved :: store where
  "one_approved = snd (approve one_pending all_ok [99] 99 (Confess 7 2000) 3000)"

definition one_unposted :: store where
  "one_unposted = snd (approve one_pending not_posted [99] 99 (Confess 7 2000) 3000)"

text \<open>User 8 sends the comment \<^verbatim>\<open>nice one\<close> at the instant 5000; all goes well.\<close>

definition delivered :: comment_outcome where
  "delivered = \<lparr>co_commits = True, co_recorded = True, co_replied = True\<rparr>"

definition bob :: request where
  "bob = \<lparr>rq_session = ses0\<lparr>waitingForComment := Some (Confess 7 2000)\<rparr>, rq_userId = 8,
          rq_userName = js ''Bob'', rq_text = js ''nice one'', rq_outcome = delivered,
          rq_tc = 5000, rq_now = 5000, rq_tr = 5000\<rparr>"

text \<open>
  User 7 has a profile and nothing else is stored; a session that waits for a
  confession; user 7 blocked by the admin, with a cooldown recorded at the instant 1000;
  and the store after the first confession of user 7, sent at the instant 2000 with the
  cooldown recorded at 2001.
\<close>

definition known_user :: store where
  "known_user = empty_store\<lparr>users := [7 \<mapsto> newProfile]\<rparr>"

definition waiting :: session where
  "waiting = ses0\<lparr>waitingForConfession := True\<rparr>"

definition blocked_user :: store where
  "blocked_user =
     setCooldown (empty_store\<lparr>users := [7 \<mapsto> newProfile\<lparr>pf_isActive := False\<rparr>]\<rparr>)
       7 ''confession'' 1000"

definition first_stored :: store where
  "first_stored =
     fst (snd (handleConfession known_user waiting 7 (js ''first secret'') True 2000 2001))"




section \<open>Theorems\<close>

subsection \<open>Sequence allocator\<close>

lemma allocate_all_Some:
  "\<exists>d'. allocate_all calls (Some d) =
          ([confessionNumber d + 1 .. confessionNumber d + int (successes calls)], Some d')
        \<and> confessionNumber d' = confessionNumber d + int (successes calls)"
proof (induction calls arbitrary: d)
  case Nil
  show ?case by (simp add: successes_def)
next
  case (Cons c calls)
  obtain commits now where c: "c = (commits, now)" by (cases c)
  define k where "k = confessionNumber d"
  define n where "n = int (successes calls)"
  show ?case
  proof (cases commits)
    case False
    with c Cons.IH [of d] show ?thesis
      by (simp add: getNextConfessionNumber_def successes_def)
  next
    case True
    let ?d1 = "d\<lparr>confessionNumber := k + 1, lastAssigned := now\<rparr>"
    have k1: "confessionNumber ?d1 = k + 1" by simp
    from Cons.IH [of ?d1] obtain d' where
      run: "allocate_all calls (Some ?d1) = ([k + 1 + 1 .. k + 1 + n], Some d')"
      and fin: "confessionNumber d' = k + 1 + n"
      unfolding k1 n_def by blast
    have step: "getNextConfessionNumber True now (Some d) = Inr (k + 1, Some ?d1)"
      by (simp add: getNextConfessionNumber_def Let_def k_def)
    have all: "allocate_all (c # calls) (Some d) = ((k + 1) # [k + 1 + 1 .. k + 1 + n], Some d')"
      using True by (simp add: c step run)
    have "0 \<le> n" by (simp add: n_def)
    then have le: "k + 1 \<le> k + (n + 1)" by simp
    have b: "k + 1 + n = k + (n + 1)" by simp
    have up: "(k + 1) # [k + 1 + 1 .. k + 1 + n] = [k + 1 .. k + (n + 1)]"
      unfolding b using upto_rec1 [OF le] by (rule sym)
    have s: "int (successes (c # calls)) = n + 1"
      using c True by (simp add: successes_def n_def)
    have "allocate_all (c # calls) (Some d) = ([k + 1 .. k + (n + 1)], Some d')"
      unfolding all up ..
    moreover have "confessionNumber d' = k + (n + 1)"
      using fin by simp
    ultimately show ?thesis
      unfolding s k_def [symmetric] by blast
  qed
qed

text \<open>
  Claim C1. Starting from a counter document holding \<open>k\<close>, the calls of
  \<^verbatim>\<open>getNextConfessionNumber\<close> that succeed return exactly \<open>k+1, k+2, ..., k+N\<close> in
  this order, where \<open>N\<close> is the number of successful calls; the list is strictly
  increasing and has no duplicates; one successful call raises the stored counter by
  exactly one, a failed call leaves it as it is; with no counter document the first
  successful call creates one holding 1 and returns 1.
\<close>

theorem getNextConfessionNumber_sequence:
  "fst (allocate_all calls (Some d)) =
     [confessionNumber d + 1 .. confessionNumber d + int (successes calls)]
   \<and> map_option confessionNumber (snd (allocate_all calls (Some d))) =
       Some (confessionNumber d + int (successes calls))
   \<and> sorted_wrt (<) (fst (allocate_all calls (Some d)))
   \<and> distinct (fst (allocate_all calls (Some d)))
   \<and> (\<exists>d'. getNextConfessionNumber True now (Some d) = Inr (confessionNumber d + 1, Some d')
           \<and> confessionNumber d' = confessionNumber d + 1)
   \<and> getNextConfessionNumber False now doc = Inl TransactionFailed
   \<and> getNextConfessionNumber True now None =
       Inr (1, Some \<lparr>confessionNumber = 1, lastAssigned = now\<rparr>)"
proof -
  obtain d' where run: "allocate_all calls (Some d) =
          ([confessionNumber d + 1 .. confessionNumber d + int (successes calls)], Some d')"
    and fin: "confessionNumber d' = confessionNumber d + int (successes calls)"
    using allocate_all_Some [of calls d] by auto
  have "sorted_wrt (<) [confessionNumber d + 1 .. confessionNumber d + int (successes calls)]"
    by (rule sorted_wrt_upto)
  then show ?thesis
    using run fin by (simp add: getNextConfessionNumber_def Let_def)
qed

theorem getNextConfessionNumber_sequence_witness:
  "fst (allocate_all [(True, 10), (False, 11), (True, 12), (True, 13)]
          (Some \<lparr>confessionNumber = 41, lastAssigned = 0\<rparr>)) = [42, 43, 44]
   \<and> map_option confessionNumber
        (snd (allocate_all [(True, 10), (False, 11), (True, 12), (True, 13)]
          (Some \<lparr>confessionNumber = 41, lastAssigned = 0\<rparr>))) = Some 44"
  using getNextConfessionNumber_sequence
    [of "[(True, 10), (False, 11), (True, 12), (True, 13)]"
        "\<lparr>confessionNumber = 41, lastAssigned = 0\<rparr>" 0 None]
  by (simp add: successes_def upto_rec1)

subsection \<open>Cooldowns\<close>

lemma not_inherited_confession [simp]: "\<not> inherited ''confession''"
  by (simp add: inherited_def)






subsection \<open>The comment rate limit\<close>

lemma stamps_recordComment:
  "stamps (recordComment s userId now) u =
     (if u = userId then arrayUnion (stamps s userId) now else stamps s u)"
  by (auto simp: stamps_def recordComment_def arrayUnion_def split: option.splits)

lemma stamps_cleanup_update:
  "stamps (cleanup_update s userId recent) u =
     (if u = userId \<and> user_rate_limits s userId \<noteq> None then recent else stamps s u)"
  by (auto simp: stamps_def cleanup_update_def split: option.splits)

lemma cleanup_get_stamps:
  "cleanup_get s userId now = Some recent \<Longrightarrow>
   recent = filter (\<lambda>ts. now - ts \<le> 30000) (stamps s userId)"
  by (auto simp: cleanup_get_def stamps_def split: option.splits)

lemma distinct_arrayUnion: "distinct xs \<Longrightarrow> distinct (arrayUnion xs v)"
  by (simp add: arrayUnion_def)

lemma distinct_rate_step:
  assumes "\<forall>u. distinct (stamps (fst st) u)" "\<forall>x \<in> set (snd st). distinct (snd x)"
  shows "(\<forall>u. distinct (stamps (fst (rate_step st op)) u))
         \<and> (\<forall>x \<in> set (snd (rate_step st op)). distinct (snd x))"
proof -
  obtain s pending where st: "st = (s, pending)" by (cases st)
  show ?thesis
  proof (cases op)
    case (Record userId now)
    with assms st show ?thesis
      by (simp add: stamps_recordComment distinct_arrayUnion)
  next
    case (CleanupGet userId now)
    show ?thesis
    proof (cases "cleanup_get s userId now")
      case None
      with assms st CleanupGet show ?thesis by simp
    next
      case (Some recent)
      have "distinct recent"
        using cleanup_get_stamps [OF Some] assms(1) st by simp
      with assms st CleanupGet Some show ?thesis by simp
    qed
  next
    case (CleanupUpdate i)
    show ?thesis
    proof (cases "i < length pending")
      case False
      with assms st CleanupUpdate show ?thesis by simp
    next
      case True
      then have "pending ! i \<in> set pending" by simp
      then have d: "distinct (snd (pending ! i))" using assms(2) st by simp
      have "set (take i pending @ drop (Suc i) pending) \<subseteq> set pending"
        using set_take_subset [of i pending] set_drop_subset [of "Suc i" pending] by auto
      then have "\<forall>x \<in> set (take i pending @ drop (Suc i) pending). distinct (snd x)"
        using assms(2) st by auto
      with assms(1) st CleanupUpdate True d show ?thesis
        by (simp add: stamps_cleanup_update)
    qed
  qed
qed

lemma distinct_foldl_rate_step:
  "(\<forall>u. distinct (stamps (fst st) u)) \<Longrightarrow> (\<forall>x \<in> set (snd st). distinct (snd x)) \<Longrightarrow>
   distinct (stamps (fst (foldl rate_step st ops)) u)"
proof (induction ops arbitrary: st)
  case Nil
  then show ?case by simp
next
  case (Cons op ops)
  from distinct_rate_step [OF Cons.prems, of op]
  have "\<forall>u. distinct (stamps (fst (rate_step st op)) u)"
    and "\<forall>x \<in> set (snd (rate_step st op)). distinct (snd x)"
    by blast+
  from Cons.IH [OF this] show ?case by simp
qed

lemma distinct_rate_run:
  "(\<forall>u. distinct (stamps s u)) \<Longrightarrow> distinct (stamps (rate_run s ops) u)"
  unfolding rate_run_def by (rule distinct_foldl_rate_step) simp_all






text \<open>
  Claim C10. The timestamps stored for a user never hold a value twice: this is so
  after every run of records and of reads and writes of clean-ups, in any order, from a
  store without rate-limit documents. Recording an instant that is stored already leaves
  the sequence as it is, so two comments recorded in the same millisecond leave one
  entry, and the rate-limit check counts one.
\<close>

theorem recordComment_no_duplicates:
  "(user_rate_limits s = Map.empty \<longrightarrow> distinct (stamps (rate_run s ops) userId))
   \<and> (now \<in> set (stamps s userId) \<longrightarrow>
        stamps (recordComment s userId now) userId = stamps s userId)
   \<and> stamps (recordComment (recordComment s userId now) userId now) userId =
       stamps (recordComment s userId now) userId
   \<and> checkCommentRateLimit (recordComment (recordComment s userId now) userId now)
        userId w m t =
      checkCommentRateLimit (recordComment s userId now) userId w m t"
proof -
  have "user_rate_limits s = Map.empty \<longrightarrow> distinct (stamps (rate_run s ops) userId)"
  proof
    assume "user_rate_limits s = Map.empty"
    then have "\<forall>u. distinct (stamps s u)" by (simp add: stamps_def)
    then show "distinct (stamps (rate_run s ops) userId)" by (rule distinct_rate_run)
  qed
  moreover have "now \<in> set (stamps s userId) \<longrightarrow>
        stamps (recordComment s userId now) userId = stamps s userId"
    by (simp add: stamps_recordComment arrayUnion_def)
  moreover have e: "stamps (recordComment (recordComment s userId now) userId now) userId =
       stamps (recordComment s userId now) userId"
    by (simp add: stamps_recordComment arrayUnion_def)
  moreover have "checkCommentRateLimit (recordComment (recordComment s userId now) userId now)
        userId w m t =
      checkCommentRateLimit (recordComment s userId now) userId w m t"
    using e by (auto simp: checkCommentRateLimit_def stamps_def recordComment_def Let_def
                     split: option.splits)
  ultimately show ?thesis by blast
qed

theorem recordComment_no_duplicates_witness:
  "user_rate_limits empty_store = Map.empty
   \<and> distinct (stamps (rate_run empty_store
        [Record 7 1000, Record 7 1000, CleanupGet 7 2000, Record 7 1500, CleanupUpdate 0,
         Record 7 1000]) 7)
   \<and> 1000 \<in> set (stamps (recordComment empty_store 7 1000) 7)
   \<and> stamps (recordComment (recordComment empty_store 7 1000) 7 1000) 7 = [1000]"
  using recordComment_no_duplicates
      [where s = empty_store and userId = 7 and now = 1000
         and ops = "[Record 7 1000, Record 7 1000, CleanupGet 7 2000, Record 7 1500,
                     CleanupUpdate 0, Record 7 1000]"]
    recordComment_no_duplicates
      [where s = "recordComment empty_store 7 1000" and userId = 7 and now = 1000 and ops = "[]"]
  by (simp add: empty_store_def stamps_def recordComment_def arrayUnion_def)

subsection \<open>Sanitization and submission\<close>

lemma length_replace_all: "length (replace_all m s) \<le> length s"
  by (induction m s rule: replace_all.induct) (auto split: option.splits intro: le_SucI)

lemma set_replace_all: "set (replace_all m s) \<subseteq> set s"
proof (induction m s rule: replace_all.induct)
  case (1 m)
  show ?case by simp
next
  case (2 m c cs)
  show ?case
  proof (cases "m (c # cs)")
    case None
    with 2 show ?thesis by auto
  next
    case (Some n)
    with 2 have "set (replace_all m (drop (n - 1) cs)) \<subseteq> set (drop (n - 1) cs)" by simp
    also have "\<dots> \<subseteq> set cs" by (rule set_drop_subset)
    finally show ?thesis using Some by auto
  qed
qed

lemma length_trim: "length (trim s) \<le> length s"
proof -
  have "length (trim s) \<le> length (dropWhile is_space s)"
    unfolding trim_def using length_dropWhile_le [of is_space "rev (dropWhile is_space s)"] by simp
  also have "\<dots> \<le> length s" by (rule length_dropWhile_le)
  finally show ?thesis .
qed

lemma length_sanitizeInput: "length (sanitizeInput text) \<le> length text"
proof (cases "text = []")
  case True
  then show ?thesis by (simp add: sanitizeInput_def)
next
  case False
  have "length (sanitizeInput text) \<le>
        length (replace_all m_tag (replace_all m_handler
             (replace_all m_javascript (replace_all m_script text))))"
    using False by (simp add: sanitizeInput_def length_trim)
  also have "\<dots> \<le> length (replace_all m_handler
             (replace_all m_javascript (replace_all m_script text)))"
    by (rule length_replace_all)
  also have "\<dots> \<le> length (replace_all m_javascript (replace_all m_script text))"
    by (rule length_replace_all)
  also have "\<dots> \<le> length (replace_all m_script text)"
    by (rule length_replace_all)
  also have "\<dots> \<le> length text"
    by (rule length_replace_all)
  finally show ?thesis .
qed

lemma has_tag_iff: "has_tag s \<longleftrightarrow> (\<exists>a b c. s = a @ 60 # b @ 62 # c)"
proof (induction s)
  case Nil
  show ?case by simp
next
  case (Cons x s)
  show ?case
  proof
    assume "has_tag (x # s)"
    then consider "x = 60" "62 \<in> set s" | "has_tag s" by auto
    then show "\<exists>a b c. x # s = a @ 60 # b @ 62 # c"
    proof cases
      case 1
      from 1(2) obtain b c where "s = b @ 62 # c" by (auto simp: in_set_conv_decomp)
      with 1(1) have "x # s = [] @ 60 # b @ 62 # c" by simp
      then show ?thesis by blast
    next
      case 2
      with Cons.IH obtain a b c where "s = a @ 60 # b @ 62 # c" by blast
      then have "x # s = (x # a) @ 60 # b @ 62 # c" by simp
      then show ?thesis by blast
    qed
  next
    assume "\<exists>a b c. x # s = a @ 60 # b @ 62 # c"
    then obtain a b c where e: "x # s = a @ 60 # b @ 62 # c" by blast
    show "has_tag (x # s)"
    proof (cases a)
      case Nil
      with e show ?thesis by auto
    next
      case (Cons y a')
      with e have "s = a' @ 60 # b @ 62 # c" by simp
      with Cons.IH have "has_tag s" by blast
      then show ?thesis by simp
    qed
  qed
qed

lemma has_tag_append: "has_tag s \<Longrightarrow> has_tag (p @ s @ q)"
proof -
  assume "has_tag s"
  then obtain a b c where "s = a @ 60 # b @ 62 # c" unfolding has_tag_iff by blast
  then have "p @ s @ q = (p @ a) @ 60 # b @ 62 # (c @ q)" by simp
  then show ?thesis unfolding has_tag_iff by blast
qed

lemma has_tag_trim: "has_tag (trim s) \<Longrightarrow> has_tag s"
proof -
  assume h: "has_tag (trim s)"
  let ?d = "dropWhile is_space s"
  have 1: "s = takeWhile is_space s @ ?d" by simp
  have "rev ?d = takeWhile is_space (rev ?d) @ dropWhile is_space (rev ?d)" by simp
  then have "?d = rev (dropWhile is_space (rev ?d)) @ rev (takeWhile is_space (rev ?d))"
    by (metis rev_append rev_rev_ident)
  then have 2: "?d = trim s @ rev (takeWhile is_space (rev ?d))" by (simp add: trim_def)
  have "s = takeWhile is_space s @ trim s @ rev (takeWhile is_space (rev ?d))"
    using 1 2 by metis
  then show ?thesis using has_tag_append [OF h] by metis
qed

lemma no_tag_replace: "\<not> has_tag (replace_all m_tag s)"
proof (induction m_tag s rule: replace_all.induct)
  case 1
  show ?case by simp
next
  case (2 c cs)
  show ?case
  proof (cases "m_tag (c # cs)")
    case None
    then have "\<not> (c = 60 \<and> 62 \<in> set cs)" by (auto simp: m_tag_def split: if_splits)
    then have "\<not> (c = 60 \<and> 62 \<in> set (replace_all m_tag cs))"
      using set_replace_all [of m_tag cs] by auto
    with 2(1) [OF None] None show ?thesis by simp
  next
    case (Some n)
    with 2(2) [OF Some] show ?thesis by simp
  qed
qed

lemma no_tag_sanitizeInput: "\<not> has_tag (sanitizeInput text)"
proof (cases "text = []")
  case True
  then show ?thesis by (simp add: sanitizeInput_def)
next
  case False
  show ?thesis
  proof
    assume "has_tag (sanitizeInput text)"
    then have "has_tag (replace_all m_tag (replace_all m_handler
             (replace_all m_javascript (replace_all m_script text))))"
      using False by (auto simp: sanitizeInput_def dest: has_tag_trim)
    then show False by (simp add: no_tag_replace)
  qed
qed

lemma getUserProfile_eq:
  "getUserProfile s userId = (prof s userId, s\<lparr>users := (users s)(userId \<mapsto> prof s userId)\<rparr>)"
  by (cases "users s userId") (simp_all add: getUserProfile_def prof_def map_upd_triv)

lemma only_profile_award:
  assumes "only_profile s userId p s'"
  shows "only_profile s userId p (awardAchievement s' userId a)"
proof -
  from assms obtain p' where s': "s' = s\<lparr>users := (users s)(userId \<mapsto> p')\<rparr>"
    and k: "keeps_profile p p'" unfolding only_profile_def by blast
  let ?q = "p'\<lparr>pf_achievements := arrayUnion (pf_achievements p') a,
               pf_achievementCount := pf_achievementCount p' + 1\<rparr>"
  have "awardAchievement s' userId a = s\<lparr>users := (users s)(userId \<mapsto> ?q)\<rparr>"
    by (simp add: awardAchievement_def s')
  moreover have "keeps_profile p ?q" using k by (simp add: keeps_profile_def)
  ultimately show ?thesis unfolding only_profile_def by blast
qed

lemma only_profile_if:
  "only_profile s userId p s' \<Longrightarrow>
   only_profile s userId p (if c then awardAchievement s' userId a else s')"
  by (simp add: only_profile_award)

lemma only_profile_checkAchievements:
  "only_profile s userId (prof s userId) (checkAchievements s userId)"
proof -
  have "keeps_profile (prof s userId) (prof s userId)" by (simp add: keeps_profile_def)
  then have 0: "only_profile s userId (prof s userId)
                  (s\<lparr>users := (users s)(userId \<mapsto> prof s userId)\<rparr>)"
    unfolding only_profile_def by blast
  show ?thesis
    unfolding checkAchievements_def getUserProfile_eq prod.case Let_def
    by (intro only_profile_if 0)
qed

lemma handleConfession_short:
  "text = [] \<or> length (trim text) < 5 \<Longrightarrow>
   handleConfession s ses userId text replied now now' =
     (ConfessionTooShort, s, ses\<lparr>waitingForConfession := False\<rparr>)"
  by (simp add: handleConfession_def)

lemma handleConfession_long:
  "5 \<le> length (trim text) \<Longrightarrow> 1000 < length text \<Longrightarrow>
   handleConfession s ses userId text replied now now' =
     (ConfessionTooLong, s, ses\<lparr>waitingForConfession := False\<rparr>)"
  by (auto simp: handleConfession_def trim_def)

lemma handleConfession_no_profile:
  assumes "5 \<le> length (trim text)" "length text \<le> 1000" "users s userId = None"
  shows "handleConfession s ses userId text replied now now' =
     (SubmissionError,
      s\<lparr>confessions := (confessions s)(Confess userId now \<mapsto> pending_confession userId text now)\<rparr>,
      ses\<lparr>waitingForConfession := False\<rparr>)"
proof -
  have "text \<noteq> []" using assms(1) by (auto simp: trim_def)
  then show ?thesis
    using assms by (simp add: handleConfession_def Let_def pending_confession_def)
qed

lemma handleConfession_ok:
  assumes "5 \<le> length (trim text)" "length text \<le> 1000" "users s userId = Some p"
  shows "\<exists>p'. handleConfession s ses userId text replied now now' =
     (if replied then ConfessionSubmitted else SubmissionError,
      s\<lparr>confessions := (confessions s)(Confess userId now \<mapsto> pending_confession userId text now),
        users := (users s)(userId \<mapsto> p'),
        user_cooldowns := user_cooldowns (setCooldown s userId ''confession'' now')\<rparr>,
      ses\<lparr>waitingForConfession := False\<rparr>)
    \<and> keeps_profile (p\<lparr>pf_totalConfessions := pf_totalConfessions p + 1\<rparr>) p'"
proof -
  have t: "text \<noteq> []" using assms(1) by (auto simp: trim_def)
  let ?s1 = "s\<lparr>confessions := (confessions s)(Confess userId now \<mapsto> pending_confession userId text now)\<rparr>"
  let ?q = "p\<lparr>pf_totalConfessions := pf_totalConfessions p + 1\<rparr>"
  let ?s2 = "?s1\<lparr>users := (users ?s1)(userId \<mapsto> ?q)\<rparr>"
  let ?s3 = "setCooldown ?s2 userId ''confession'' now'"
  have h: "handleConfession s ses userId text replied now now' =
     (if replied then ConfessionSubmitted else SubmissionError,
      if replied then checkAchievements ?s3 userId else ?s3,
      ses\<lparr>waitingForConfession := False\<rparr>)"
    using t assms by (simp add: handleConfession_def Let_def pending_confession_def)
  have pr: "prof ?s3 userId = ?q" by (simp add: prof_def setCooldown_def)
  from only_profile_checkAchievements [of ?s3 userId] obtain p' where
    c: "checkAchievements ?s3 userId = ?s3\<lparr>users := (users ?s3)(userId \<mapsto> p')\<rparr>"
    and k: "keeps_profile ?q p'"
    unfolding only_profile_def pr by blast
  have yes: "checkAchievements ?s3 userId =
        s\<lparr>confessions := (confessions s)(Confess userId now \<mapsto> pending_confession userId text now),
          users := (users s)(userId \<mapsto> p'),
          user_cooldowns := user_cooldowns (setCooldown s userId ''confession'' now')\<rparr>"
    unfolding c by (simp add: setCooldown_def)
  have no: "?s3 =
        s\<lparr>confessions := (confessions s)(Confess userId now \<mapsto> pending_confession userId text now),
          users := (users s)(userId \<mapsto> ?q),
          user_cooldowns := user_cooldowns (setCooldown s userId ''confession'' now')\<rparr>"
    by (simp add: setCooldown_def)
  have kq: "keeps_profile ?q ?q" by (simp add: keeps_profile_def)
  show ?thesis
  proof (cases replied)
    case True
    with h yes k show ?thesis by auto
  next
    case False
    with h no kq show ?thesis by auto
  qed
qed

lemma checkCooldown_users [simp]:
  "checkCooldown (s\<lparr>users := x\<rparr>) userId action w now = checkCooldown s userId action w now"
  by (simp add: checkCooldown_def)

lemma sendConfessionCommand_prompt:
  assumes "pf_isActive (prof s userId)" "checkCooldown s userId ''confession'' 60000 t1"
  shows "sendConfessionCommand s ses userId t1 t2 =
     (SendYourConfession, s\<lparr>users := (users s)(userId \<mapsto> prof s userId)\<rparr>,
      ses\<lparr>waitingForConfession := True\<rparr>)"
  using assms by (simp add: sendConfessionCommand_def getUserProfile_eq Let_def)

lemma sendConfessionCommand_wait:
  assumes "users s userId = Some p" "pf_isActive p"
    "\<not> checkCooldown s userId ''confession'' 60000 t1"
  shows "\<exists>data. user_cooldowns s userId = Some data
     \<and> sendConfessionCommand s ses userId t1 t2 = (PleaseWait (waitTime data t2), s, ses)"
proof -
  from assms(3) obtain data where d: "user_cooldowns s userId = Some data"
    by (auto simp: checkCooldown_def split: option.splits)
  have p: "prof s userId = p" using assms(1) by (simp add: prof_def)
  have u: "s\<lparr>users := (users s)(userId \<mapsto> p)\<rparr> = s"
    using assms(1) by (simp add: map_upd_triv)
  show ?thesis
    using assms d by (simp add: sendConfessionCommand_def getUserProfile_eq Let_def p u)
qed

lemma waitTime_ceiling:
  assumes "data ''confession'' = Some (Millis t)" "t \<noteq> 0"
  shows "\<exists>n. waitTime data t2 = Some n
     \<and> 1000 * (n - 1) < 60000 - (t2 - t) \<and> 60000 - (t2 - t) \<le> 1000 * n"
proof -
  define x where "x = 60000 - (t2 - t)"
  have w: "waitTime data t2 = Some (- ((- x) div 1000))"
    using assms by (simp add: waitTime_def falsy_def x_def)
  define q where "q = (- x) div 1000"
  define r where "r = (- x) mod 1000"
  have "- x = 1000 * q + r" by (simp add: q_def r_def)
  moreover have "0 \<le> r" "r < 1000" by (simp_all add: r_def)
  ultimately have "1000 * (- q - 1) < x \<and> x \<le> 1000 * (- q)"
    by (simp add: algebra_simps)
  then have "1000 * (- ((- x) div 1000) - 1) < x \<and> x \<le> 1000 * (- ((- x) div 1000))"
    by (simp only: q_def)
  with w show ?thesis unfolding x_def by blast
qed

lemma sendConfessionCommand_known:
  assumes "users s userId = Some p" "pf_isActive p"
    "checkCooldown s userId ''confession'' 60000 t1"
  shows "sendConfessionCommand s ses userId t1 t2 =
     (SendYourConfession, s, ses\<lparr>waitingForConfession := True\<rparr>)"
proof -
  have p: "prof s userId = p" using assms(1) by (simp add: prof_def)
  have u: "s\<lparr>users := (users s)(userId \<mapsto> p)\<rparr> = s"
    using assms(1) by (simp add: map_upd_triv)
  show ?thesis
    using sendConfessionCommand_prompt [of s userId t1 ses t2] assms(2,3) by (simp add: p u)
qed

lemma active_cooldown_nonzero:
  assumes "\<not> checkCooldown s userId a w now" "user_cooldowns s userId = Some data"
    "data a = Some (Millis t)"
  shows "t \<noteq> 0"
  using assms by (auto simp: checkCooldown_def falsy_def)

text \<open>
  Claim C7, as the code has it. A submission is made with two handlers: the button
  \<^verbatim>\<open>send_confession\<close> runs \<^verbatim>\<open>sendConfessionCommand\<close>, and the text handler passes the
  text of a message to \<^verbatim>\<open>handleConfession\<close> while the session waits for a confession.
  For a text with at least 5 characters after trimming and at most 1000 characters as
  sent (the code measures the upper bound before trimming), from a user who has a
  profile, \<^verbatim>\<open>handleConfession\<close> stores a confession with status pending and no
  confession number, adds one to the author's confession count and records the
  cooldown; it touches neither the counter nor the comment threads nor the rate limits,
  and it confirms the submission if Telegram accepts the confirmation. For a text with
  fewer than 5 characters after trimming or more than 1000 characters as sent, it
  replies that the text is too short or too long and leaves the store as it was. The
  cooldown is checked by the button: for an active user who has a profile, while the
  cooldown runs it replies with the seconds to wait, 60000 ms minus the time since the
  stored instant, rounded up to whole seconds, writes nothing and leaves the session as
  it was; once the cooldown has expired it asks for the text, writes nothing and puts
  the session in the waiting state. After the button the user has a profile, the stored
  one or the default that the button creates.
\<close>

theorem submit_confession:
  "(5 \<le> length (trim text) \<and> length text \<le> 1000 \<and> users s userId = Some p \<longrightarrow>
      (\<exists>s' p'. handleConfession s ses userId text replied now now' =
                 (if replied then ConfessionSubmitted else SubmissionError, s',
                  ses\<lparr>waitingForConfession := False\<rparr>)
         \<and> confessions s' =
             (confessions s)(Confess userId now \<mapsto> pending_confession userId text now)
         \<and> users s' = (users s)(userId \<mapsto> p')
         \<and> pf_totalConfessions p' = pf_totalConfessions p + 1
         \<and> cooldown_field s' userId ''confession'' = Some (Millis now')
         \<and> system_counters s' = system_counters s \<and> comments s' = comments s
         \<and> user_rate_limits s' = user_rate_limits s))
   \<and> cf_status (pending_confession userId text now) = Pending
   \<and> cf_confessionNumber (pending_confession userId text now) = None
   \<and> (length (trim text) < 5 \<or> 1000 < length text \<longrightarrow>
      handleConfession s ses userId text replied now now' =
        (if length (trim text) < 5 then ConfessionTooShort else ConfessionTooLong,
         s, ses\<lparr>waitingForConfession := False\<rparr>))
   \<and> (users s userId = Some p \<and> pf_isActive p
      \<and> \<not> checkCooldown s userId ''confession'' 60000 t1 \<longrightarrow>
      (\<exists>data. user_cooldowns s userId = Some data
         \<and> sendConfessionCommand s ses userId t1 t2 = (PleaseWait (waitTime data t2), s, ses)
         \<and> (\<forall>t. data ''confession'' = Some (Millis t) \<longrightarrow>
               (\<exists>n. waitTime data t2 = Some n
                  \<and> 1000 * (n - 1) < 60000 - (t2 - t) \<and> 60000 - (t2 - t) \<le> 1000 * n))))
   \<and> (users s userId = Some p \<and> pf_isActive p
      \<and> checkCooldown s userId ''confession'' 60000 t1 \<longrightarrow>
      sendConfessionCommand s ses userId t1 t2 =
        (SendYourConfession, s, ses\<lparr>waitingForConfession := True\<rparr>))
   \<and> users (fst (snd (sendConfessionCommand s ses userId t1 t2))) userId
       = Some (prof s userId)"
proof -
  have f: "users (fst (snd (sendConfessionCommand s ses userId t1 t2))) userId
             = Some (prof s userId)"
    by (simp add: sendConfessionCommand_def getUserProfile_eq Let_def split: option.splits)
  have a: "\<exists>s' p'. handleConfession s ses userId text replied now now' =
                 (if replied then ConfessionSubmitted else SubmissionError, s',
                  ses\<lparr>waitingForConfession := False\<rparr>)
         \<and> confessions s' =
             (confessions s)(Confess userId now \<mapsto> pending_confession userId text now)
         \<and> users s' = (users s)(userId \<mapsto> p')
         \<and> pf_totalConfessions p' = pf_totalConfessions p + 1
         \<and> cooldown_field s' userId ''confession'' = Some (Millis now')
         \<and> system_counters s' = system_counters s \<and> comments s' = comments s
         \<and> user_rate_limits s' = user_rate_limits s"
    if l5: "5 \<le> length (trim text)" and l1000: "length text \<le> 1000"
      and u: "users s userId = Some p"
  proof -
    from handleConfession_ok [OF l5 l1000 u, of ses replied now now']
    obtain p' where h: "handleConfession s ses userId text replied now now' =
       (if replied then ConfessionSubmitted else SubmissionError,
        s\<lparr>confessions := (confessions s)(Confess userId now \<mapsto> pending_confession userId text now),
          users := (users s)(userId \<mapsto> p'),
          user_cooldowns := user_cooldowns (setCooldown s userId ''confession'' now')\<rparr>,
        ses\<lparr>waitingForConfession := False\<rparr>)"
      and k: "keeps_profile (p\<lparr>pf_totalConfessions := pf_totalConfessions p + 1\<rparr>) p'"
      by blast
    have n: "pf_totalConfessions p' = pf_totalConfessions p + 1"
      using k by (simp add: keeps_profile_def)
    show ?thesis
      by (rule exI [where x = "s\<lparr>confessions := (confessions s)(Confess userId now \<mapsto> pending_confession userId text now),
          users := (users s)(userId \<mapsto> p'),
          user_cooldowns := user_cooldowns (setCooldown s userId ''confession'' now')\<rparr>"],
          rule exI [where x = p'])
         (simp add: h n cooldown_field_def setCooldown_def split: option.splits)
  qed
  have b: "handleConfession s ses userId text replied now now' =
        (if length (trim text) < 5 then ConfessionTooShort else ConfessionTooLong,
         s, ses\<lparr>waitingForConfession := False\<rparr>)"
    if "length (trim text) < 5 \<or> 1000 < length text"
  proof (cases "length (trim text) < 5")
    case True
    then show ?thesis by (simp add: handleConfession_short)
  next
    case False
    with that have "5 \<le> length (trim text)" "1000 < length text" by simp_all
    from handleConfession_long [OF this] False show ?thesis by simp
  qed
  have c: "\<exists>data. user_cooldowns s userId = Some data
         \<and> sendConfessionCommand s ses userId t1 t2 = (PleaseWait (waitTime data t2), s, ses)
         \<and> (\<forall>t. data ''confession'' = Some (Millis t) \<longrightarrow>
               (\<exists>n. waitTime data t2 = Some n
                  \<and> 1000 * (n - 1) < 60000 - (t2 - t) \<and> 60000 - (t2 - t) \<le> 1000 * n))"
    if u: "users s userId = Some p" and act: "pf_isActive p"
      and hot: "\<not> checkCooldown s userId ''confession'' 60000 t1"
  proof -
    from sendConfessionCommand_wait [OF u act hot, of ses t2]
    obtain data where d: "user_cooldowns s userId = Some data"
      and r: "sendConfessionCommand s ses userId t1 t2 = (PleaseWait (waitTime data t2), s, ses)"
      by blast
    have "\<exists>n. waitTime data t2 = Some n
                  \<and> 1000 * (n - 1) < 60000 - (t2 - t) \<and> 60000 - (t2 - t) \<le> 1000 * n"
      if m: "data ''confession'' = Some (Millis t)" for t
    proof -
      have "t \<noteq> 0" using hot d m by (rule active_cooldown_nonzero)
      with m show ?thesis by (rule waitTime_ceiling [where data = data and t = t])
    qed
    with d r show ?thesis by blast
  qed
  have d: "sendConfessionCommand s ses userId t1 t2 =
        (SendYourConfession, s, ses\<lparr>waitingForConfession := True\<rparr>)"
    if "users s userId = Some p" "pf_isActive p" "checkCooldown s userId ''confession'' 60000 t1"
    using sendConfessionCommand_known [OF that] .
  have e: "cf_status (pending_confession userId text now) = Pending"
    "cf_confessionNumber (pending_confession userId text now) = None"
    by (simp_all add: pending_confession_def)
  show ?thesis
  proof (intro conjI impI)
    assume "5 \<le> length (trim text) \<and> length text \<le> 1000 \<and> users s userId = Some p"
    then show "\<exists>s' p'. handleConfession s ses userId text replied now now' =
                 (if replied then ConfessionSubmitted else SubmissionError, s',
                  ses\<lparr>waitingForConfession := False\<rparr>)
         \<and> confessions s' =
             (confessions s)(Confess userId now \<mapsto> pending_confession userId text now)
         \<and> users s' = (users s)(userId \<mapsto> p')
         \<and> pf_totalConfessions p' = pf_totalConfessions p + 1
         \<and> cooldown_field s' userId ''confession'' = Some (Millis now')
         \<and> system_counters s' = system_counters s \<and> comments s' = comments s
         \<and> user_rate_limits s' = user_rate_limits s"
      by (elim conjE) (rule a)
  next
    show "cf_status (pending_confession userId text now) = Pending" by (rule e)
  next
    show "cf_confessionNumber (pending_confession userId text now) = None" by (rule e)
  next
    assume "length (trim text) < 5 \<or> 1000 < length text"
    then show "handleConfession s ses userId text replied now now' =
        (if length (trim text) < 5 then ConfessionTooShort else ConfessionTooLong,
         s, ses\<lparr>waitingForConfession := False\<rparr>)"
      by (rule b)
  next
    assume "users s userId = Some p \<and> pf_isActive p
      \<and> \<not> checkCooldown s userId ''confession'' 60000 t1"
    then show "\<exists>data. user_cooldowns s userId = Some data
         \<and> sendConfessionCommand s ses userId t1 t2 = (PleaseWait (waitTime data t2), s, ses)
         \<and> (\<forall>t. data ''confession'' = Some (Millis t) \<longrightarrow>
               (\<exists>n. waitTime data t2 = Some n
                  \<and> 1000 * (n - 1) < 60000 - (t2 - t) \<and> 60000 - (t2 - t) \<le> 1000 * n))"
      by (elim conjE) (rule c)
  next
    assume "users s userId = Some p \<and> pf_isActive p
      \<and> checkCooldown s userId ''confession'' 60000 t1"
    then show "sendConfessionCommand s ses userId t1 t2 =
        (SendYourConfession, s, ses\<lparr>waitingForConfession := True\<rparr>)"
      by (elim conjE) (rule d)
  next
    show "users (fst (snd (sendConfessionCommand s ses userId t1 t2))) userId
            = Some (prof s userId)"
      by (rule f)
  qed
qed

text \<open>
  Claim C8, as the code has it. The length checks are made on the text as sent, the
  sanitization afterwards: whenever \<^verbatim>\<open>handleConfession\<close> stores a confession, the
  text as sent has at least 5 characters after trimming and at most 1000, and the
  stored text is the sanitized, trimmed text, which holds no tag and has at most 1000
  characters (and possibly fewer than 5).
\<close>

theorem handleConfession_stored_text:
  "handleConfession s ses userId text replied now now' = (r, s', ses') \<longrightarrow>
     ((r = ConfessionTooShort \<or> r = ConfessionTooLong) \<and> s' = s)
   \<or> ((r = ConfessionSubmitted \<or> r = SubmissionError)
      \<and> 5 \<le> length (trim text) \<and> length text \<le> 1000
      \<and> confessions s' =
           (confessions s)(Confess userId now \<mapsto> pending_confession userId text now)
      \<and> cf_text (pending_confession userId text now) = trim (sanitizeInput text)
      \<and> cf_status (pending_confession userId text now) = Pending
      \<and> length (trim (sanitizeInput text)) \<le> 1000
      \<and> \<not> has_tag (trim (sanitizeInput text)))"
proof
  assume h: "handleConfession s ses userId text replied now now' = (r, s', ses')"
  show "((r = ConfessionTooShort \<or> r = ConfessionTooLong) \<and> s' = s)
   \<or> ((r = ConfessionSubmitted \<or> r = SubmissionError)
      \<and> 5 \<le> length (trim text) \<and> length text \<le> 1000
      \<and> confessions s' =
           (confessions s)(Confess userId now \<mapsto> pending_confession userId text now)
      \<and> cf_text (pending_confession userId text now) = trim (sanitizeInput text)
      \<and> cf_status (pending_confession userId text now) = Pending
      \<and> length (trim (sanitizeInput text)) \<le> 1000
      \<and> \<not> has_tag (trim (sanitizeInput text)))"
  proof (cases "length (trim text) < 5")
    case True
    with h show ?thesis by (simp add: handleConfession_short)
  next
    case False
    then have l5: "5 \<le> length (trim text)" by simp
    show ?thesis
    proof (cases "1000 < length text")
      case True
      with h l5 show ?thesis by (simp add: handleConfession_long)
    next
      case False
      then have l1000: "length text \<le> 1000" by simp
      have "length (trim (sanitizeInput text)) \<le> length text"
        using length_trim [of "sanitizeInput text"] length_sanitizeInput [of "text"] by linarith
      then have len: "length (trim (sanitizeInput text)) \<le> 1000" using l1000 by linarith
      have tag: "\<not> has_tag (trim (sanitizeInput text))"
        using has_tag_trim [of "sanitizeInput text"] no_tag_sanitizeInput [of "text"] by blast
      have stored: "(r = ConfessionSubmitted \<or> r = SubmissionError)
          \<and> confessions s' =
           (confessions s)(Confess userId now \<mapsto> pending_confession userId text now)"
      proof (cases "users s userId")
        case None
        from handleConfession_no_profile [OF l5 l1000 None, where ses = ses and now = now
                and now' = now' and replied = replied] h
        show ?thesis by auto
      next
        case (Some p)
        from handleConfession_ok [OF l5 l1000 Some, where ses = ses and now = now and now' = now'
                and replied = replied] h
        show ?thesis by auto
      qed
      with l5 l1000 len tag show ?thesis by (simp add: pending_confession_def)
    qed
  qed
qed

lemma sanitize_tag_only: "sanitizeInput (js ''<abcde>'') = []"
  by (simp add: sanitizeInput_def js_def m_tag_def m_handler_def m_javascript_def m_script_def
        starts_ci_def lower_def trim_def is_space_def is_word_def)

text \<open>
  Claim C8 as stated fails: the text \<^verbatim>\<open><abcde>\<close> has 7 characters, is accepted, and
  the confession is stored with the empty text.
\<close>

theorem handleConfession_stored_text_counterexample:
  "fst (handleConfession (empty_store\<lparr>users := [7 \<mapsto> newProfile]\<rparr>) ses0 7
          (js ''<abcde>'') True 1000 1001) = ConfessionSubmitted
   \<and> map_option (length \<circ> cf_text)
        (confessions (fst (snd (handleConfession (empty_store\<lparr>users := [7 \<mapsto> newProfile]\<rparr>)
           ses0 7 (js ''<abcde>'') True 1000 1001))) (Confess 7 1000)) = Some 0"
proof -
  have l5: "5 \<le> length (trim (js ''<abcde>''))"
    by (simp add: trim_def js_def is_space_def)
  have l1000: "length (js ''<abcde>'') \<le> 1000" by (simp add: js_def)
  have u: "users (empty_store\<lparr>users := [7 \<mapsto> newProfile]\<rparr>) 7 = Some newProfile" by simp
  from handleConfession_ok [OF l5 l1000 u, where ses = ses0 and now = 1000 and now' = 1001
         and replied = True]
  show ?thesis
    by (auto simp: pending_confession_def sanitize_tag_only trim_def)
qed

theorem handleConfession_stored_text_witness:
  "fst (handleConfession (empty_store\<lparr>users := [7 \<mapsto> newProfile]\<rparr>) ses0 7
          (js ''<b>hello</b> world'') True 1000 1001) = ConfessionSubmitted
   \<and> map_option cf_text
        (confessions (fst (snd (handleConfession (empty_store\<lparr>users := [7 \<mapsto> newProfile]\<rparr>)
           ses0 7 (js ''<b>hello</b> world'') True 1000 1001))) (Confess 7 1000))
       = Some (js ''hello world'')"
proof -
  obtain r s' ses' where
    h: "handleConfession (empty_store\<lparr>users := [7 \<mapsto> newProfile]\<rparr>) ses0 7
          (js ''<b>hello</b> world'') True 1000 1001 = (r, s', ses')"
    by (cases "handleConfession (empty_store\<lparr>users := [7 \<mapsto> newProfile]\<rparr>) ses0 7
          (js ''<b>hello</b> world'') True 1000 1001") auto
  have l5: "5 \<le> length (trim (js ''<b>hello</b> world''))"
    by (simp add: trim_def js_def is_space_def)
  have l1000: "length (js ''<b>hello</b> world'') \<le> 1000" by (simp add: js_def)
  have u: "users (empty_store\<lparr>users := [7 \<mapsto> newProfile]\<rparr>) 7 = Some newProfile" by simp
  have r: "r = ConfessionSubmitted"
    using handleConfession_ok [OF l5 l1000 u, where ses = ses0 and now = 1000 and now' = 1001
         and replied = True] h by auto
  have san: "trim (sanitizeInput (js ''<b>hello</b> world'')) = js ''hello world''"
    by (simp add: sanitizeInput_def js_def m_tag_def m_handler_def m_javascript_def
          m_script_def starts_ci_def lower_def trim_def is_space_def is_word_def)
  from handleConfession_stored_text
         [where s = "empty_store\<lparr>users := [7 \<mapsto> newProfile]\<rparr>" and ses = ses0
            and userId = 7 and ?text = "js ''<b>hello</b> world''" and replied = True
            and now = 1000 and now' = 1001 and r = r and s' = s' and ses' = ses'] h r
  have "confessions s' = (confessions (empty_store\<lparr>users := [7 \<mapsto> newProfile]\<rparr>))
          (Confess 7 1000 \<mapsto> pending_confession 7 (js ''<b>hello</b> world'') 1000)"
    by simp
  then show ?thesis using h r san by (simp add: pending_confession_def)
qed

lemma dropWhile_spaces: "dropWhile is_space (replicate n 32 @ ys) = dropWhile is_space ys"
  by (induction n) (simp_all add: is_space_def)

text \<open>
  Claim C7 as stated fails in three ways. A text of 5 letters followed by 996 spaces
  has length 5 after trimming and is refused as too long. A confession is stored while
  the cooldown is active: sessions are kept per user and chat, so a user who pressed the
  button in two chats before the first confession has two sessions that wait for a
  confession; the text sent in the second chat one second after the first confession is
  stored, although the cooldown check answers false at that instant. And a blocked user
  whose cooldown is active is told that the account is blocked, not how long to wait.
\<close>

theorem submit_confession_counterexample:
  "5 \<le> length (trim (js ''hello'' @ replicate 996 32))
   \<and> length (trim (js ''hello'' @ replicate 996 32)) \<le> 1000
   \<and> checkCooldown known_user 7 ''confession'' 60000 2000
   \<and> handleConfession known_user waiting 7 (js ''hello'' @ replicate 996 32) True 2000 2001 =
       (ConfessionTooLong, known_user, ses0)
   \<and> sendConfessionCommand empty_store ses0 7 1000 1000 =
       (SendYourConfession, known_user, waiting)
   \<and> sendConfessionCommand known_user ses0 7 1100 1100 =
       (SendYourConfession, known_user, waiting)
   \<and> fst (handleConfession known_user waiting 7 (js ''first secret'') True 2000 2001) =
       ConfessionSubmitted
   \<and> \<not> checkCooldown first_stored 7 ''confession'' 60000 3000
   \<and> fst (handleConfession first_stored waiting 7 (js ''second secret'') True 3000 3001) =
       ConfessionSubmitted
   \<and> confessions
        (fst (snd (handleConfession first_stored waiting 7 (js ''second secret'') True 3000 3001)))
        (Confess 7 3000) = Some (pending_confession 7 (js ''second secret'') 3000)
   \<and> \<not> checkCooldown blocked_user 7 ''confession'' 60000 2000
   \<and> sendConfessionCommand blocked_user ses0 7 2000 2000 = (AccountBlocked, blocked_user, ses0)"
proof -
  have bl: "\<not> checkCooldown blocked_user 7 ''confession'' 60000 2000"
    by (simp add: checkCooldown_def blocked_user_def setCooldown_def empty_store_def falsy_def)
  have bu: "users blocked_user 7 = Some (newProfile\<lparr>pf_isActive := False\<rparr>)"
    by (simp add: blocked_user_def setCooldown_def)
  have bp: "prof blocked_user 7 = newProfile\<lparr>pf_isActive := False\<rparr>"
    by (simp add: prof_def bu)
  have bs: "blocked_user\<lparr>users := (users blocked_user)(7 \<mapsto>
              newProfile\<lparr>pf_isActive := False\<rparr>)\<rparr> = blocked_user"
    using bu by (simp add: map_upd_triv)
  have br: "sendConfessionCommand blocked_user ses0 7 2000 2000 =
              (AccountBlocked, blocked_user, ses0)"
    by (simp add: sendConfessionCommand_def getUserProfile_eq bp bs)
  have t: "trim (js ''hello'' @ replicate 996 32) = js ''hello''"
    by (simp add: js_def trim_def is_space_def dropWhile_spaces)
  have l5: "5 \<le> length (trim (js ''hello'' @ replicate 996 32))"
    unfolding t by (simp add: js_def)
  have l1000: "1000 < length (js ''hello'' @ replicate 996 32)" by (simp add: js_def)
  have w0: "waiting\<lparr>waitingForConfession := False\<rparr> = ses0"
    by (simp add: waiting_def ses0_def)
  have u: "users known_user 7 = Some newProfile" "pf_isActive newProfile"
    by (simp_all add: known_user_def newProfile_def)
  have cool: "checkCooldown known_user 7 ''confession'' 60000 t" for t
    by (simp add: checkCooldown_def known_user_def empty_store_def)
  have a: "handleConfession known_user waiting 7 (js ''hello'' @ replicate 996 32) True 2000 2001 =
       (ConfessionTooLong, known_user, ses0)"
    using handleConfession_long [OF l5 l1000, of known_user waiting 7 True 2000 2001]
    by (simp add: w0)
  have act: "pf_isActive (prof empty_store 7)"
    by (simp add: prof_def empty_store_def newProfile_def)
  have cool0: "checkCooldown empty_store 7 ''confession'' 60000 1000"
    by (simp add: checkCooldown_def empty_store_def)
  have b: "sendConfessionCommand empty_store ses0 7 1000 1000 =
       (SendYourConfession, known_user, waiting)"
    using sendConfessionCommand_prompt [OF act cool0, of ses0 1000]
    by (simp add: prof_def empty_store_def known_user_def waiting_def)
  have c: "sendConfessionCommand known_user ses0 7 1100 1100 =
       (SendYourConfession, known_user, waiting)"
    using sendConfessionCommand_known [OF u cool, of ses0 1100] by (simp add: waiting_def)
  have f5: "5 \<le> length (trim (js ''first secret''))"
    by (simp add: trim_def js_def is_space_def)
  have f1000: "length (js ''first secret'') \<le> 1000" by (simp add: js_def)
  from handleConfession_ok [OF f5 f1000 u(1), of waiting True 2000 2001]
  obtain p' where h1: "handleConfession known_user waiting 7 (js ''first secret'') True 2000 2001 =
       (ConfessionSubmitted,
        known_user\<lparr>confessions := (confessions known_user)(Confess 7 2000 \<mapsto>
                       pending_confession 7 (js ''first secret'') 2000),
          users := (users known_user)(7 \<mapsto> p'),
          user_cooldowns := user_cooldowns (setCooldown known_user 7 ''confession'' 2001)\<rparr>,
        waiting\<lparr>waitingForConfession := False\<rparr>)"
    by auto
  have fs: "users first_stored 7 = Some p'"
    "user_cooldowns first_stored = user_cooldowns (setCooldown known_user 7 ''confession'' 2001)"
    by (simp_all add: first_stored_def h1)
  have hot: "\<not> checkCooldown first_stored 7 ''confession'' 60000 3000"
    by (simp add: checkCooldown_def fs setCooldown_def known_user_def empty_store_def falsy_def)
  have s5: "5 \<le> length (trim (js ''second secret''))"
    by (simp add: trim_def js_def is_space_def)
  have s1000: "length (js ''second secret'') \<le> 1000" by (simp add: js_def)
  from handleConfession_ok [OF s5 s1000 fs(1), of waiting True 3000 3001]
  obtain p'' where h2: "handleConfession first_stored waiting 7 (js ''second secret'') True 3000 3001 =
       (ConfessionSubmitted,
        first_stored\<lparr>confessions := (confessions first_stored)(Confess 7 3000 \<mapsto>
                       pending_confession 7 (js ''second secret'') 3000),
          users := (users first_stored)(7 \<mapsto> p''),
          user_cooldowns := user_cooldowns (setCooldown first_stored 7 ''confession'' 3001)\<rparr>,
        waiting\<lparr>waitingForConfession := False\<rparr>)"
    by auto
  from l5 a b c hot cool [of 2000] bl br show ?thesis
    unfolding t by (simp add: h1 h2) (simp add: js_def)
qed

theorem submit_confession_witness:
  "fst (handleConfession known_user waiting 7 (js ''I broke the vending machine #funny'') True
          2000 2001) = ConfessionSubmitted
   \<and> fst (handleConfession known_user waiting 7 (js ''hey'') True 2000 2001) = ConfessionTooShort
   \<and> sendConfessionCommand (setCooldown known_user 7 ''confession'' 1000) ses0 7 2000 2000 =
       (PleaseWait (Some 59), setCooldown known_user 7 ''confession'' 1000, ses0)
   \<and> sendConfessionCommand known_user ses0 7 1000 1000 =
       (SendYourConfession, known_user, waiting)"
proof -
  have u: "users known_user 7 = Some newProfile" "pf_isActive newProfile"
    by (simp_all add: known_user_def newProfile_def)
  have cool: "checkCooldown known_user 7 ''confession'' 60000 1000"
    by (simp add: checkCooldown_def known_user_def empty_store_def)
  have l5: "5 \<le> length (trim (js ''I broke the vending machine #funny''))"
    by (simp add: trim_def js_def is_space_def)
  have l1000: "length (js ''I broke the vending machine #funny'') \<le> 1000"
    by (simp add: js_def)
  have a: "fst (handleConfession known_user waiting 7 (js ''I broke the vending machine #funny'')
                  True 2000 2001) = ConfessionSubmitted"
    using submit_confession
        [where s = known_user and ses = waiting and userId = 7
           and ?text = "js ''I broke the vending machine #funny''" and ?t1.0 = 1000
           and ?t2.0 = 1000 and now = 2000 and now' = 2001 and replied = True
           and p = newProfile]
      u l5 l1000
    by auto
  have short: "length (trim (js ''hey'')) < 5"
    by (simp add: trim_def js_def is_space_def)
  have b: "fst (handleConfession known_user waiting 7 (js ''hey'') True 2000 2001)
           = ConfessionTooShort"
    using submit_confession
        [where s = known_user and ses = waiting and userId = 7 and ?text = "js ''hey''"
           and ?t1.0 = 1000 and ?t2.0 = 1000 and now = 2000 and now' = 2001
           and p = newProfile and replied = True]
      short
    by simp
  let ?c = "setCooldown known_user 7 ''confession'' 1000"
  have uc: "users ?c 7 = Some newProfile"
    by (simp add: setCooldown_def known_user_def)
  have hot: "\<not> checkCooldown ?c 7 ''confession'' 60000 2000"
    by (simp add: checkCooldown_def setCooldown_def known_user_def empty_store_def falsy_def)
  from submit_confession
        [where s = ?c and ses = ses0 and userId = 7 and ?text = "js ''hello there''"
           and ?t1.0 = 2000 and ?t2.0 = 2000 and now = 3000 and now' = 3001 and p = newProfile
           and replied = True]
      uc u(2) hot
  obtain data where d: "user_cooldowns ?c 7 = Some data"
    and r: "sendConfessionCommand ?c ses0 7 2000 2000 = (PleaseWait (waitTime data 2000), ?c, ses0)"
    and n: "\<forall>t. data ''confession'' = Some (Millis t) \<longrightarrow>
               (\<exists>n. waitTime data 2000 = Some n
                  \<and> 1000 * (n - 1) < 60000 - (2000 - t) \<and> 60000 - (2000 - t) \<le> 1000 * n)"
    by blast
  have "data ''confession'' = Some (Millis 1000)"
    using d by (auto simp: setCooldown_def known_user_def empty_store_def)
  with n obtain k where "waitTime data 2000 = Some k" "1000 * (k - 1) < 59000" "59000 \<le> 1000 * k"
    by auto
  then have "waitTime data 2000 = Some 59" by simp
  with r have c: "sendConfessionCommand ?c ses0 7 2000 2000 = (PleaseWait (Some 59), ?c, ses0)"
    by simp
  have d: "sendConfessionCommand known_user ses0 7 1000 1000 =
       (SendYourConfession, known_user, waiting)"
    using submit_confession
        [where s = known_user and ses = ses0 and userId = 7 and ?text = "js ''hey''"
           and ?t1.0 = 1000 and ?t2.0 = 1000 and now = 2000 and now' = 2001
           and p = newProfile and replied = True]
      u cool
    by (simp add: waiting_def)
  from a b c d show ?thesis by simp
qed

subsection \<open>Approval and comments\<close>

lemma only_profile_fields:
  "only_profile s userId p s' \<Longrightarrow>
     system_counters s' = system_counters s \<and> confessions s' = confessions s
     \<and> comments s' = comments s \<and> user_cooldowns s' = user_cooldowns s
     \<and> user_rate_limits s' = user_rate_limits s"
  by (auto simp: only_profile_def)

lemma checkAchievements_fields:
  "system_counters (checkAchievements s u) = system_counters s"
  "confessions (checkAchievements s u) = confessions s"
  "comments (checkAchievements s u) = comments s"
  "user_cooldowns (checkAchievements s u) = user_cooldowns s"
  "user_rate_limits (checkAchievements s u) = user_rate_limits s"
  using only_profile_fields [OF only_profile_checkAchievements [of s u]] by simp_all

lemma updateReputation_fields:
  "system_counters (updateReputation s u n) = system_counters s"
  "confessions (updateReputation s u n) = confessions s"
  "comments (updateReputation s u n) = comments s"
  "user_cooldowns (updateReputation s u n) = user_cooldowns s"
  "user_rate_limits (updateReputation s u n) = user_rate_limits s"
  by (simp_all add: updateReputation_def split: option.splits)

lemma getNext_commits:
  "\<exists>d. getNextConfessionNumber True now (system_counters s) = Inr (next_number s, Some d)
       \<and> confessionNumber d = next_number s"
  by (cases "system_counters s") (simp_all add: getNextConfessionNumber_def next_number_def Let_def)

lemma approve_refused:
  "\<not> isAdmin adminIds fromId \<Longrightarrow> approve s oc adminIds fromId cid now = (AccessDenied, s)"
  "isAdmin adminIds fromId \<Longrightarrow> confessions s cid = None \<Longrightarrow>
     approve s oc adminIds fromId cid now = (ConfessionNotFound, s)"
  "isAdmin adminIds fromId \<Longrightarrow> confessions s cid = Some c \<Longrightarrow> \<not> oc_commits oc \<Longrightarrow>
     approve s oc adminIds fromId cid now = (ApprovalFailed, s)"
  by (simp_all add: approve_def getNextConfessionNumber_def)

lemma approve_ok:
  assumes "isAdmin adminIds fromId" "confessions s cid = Some c" "oc_commits oc"
  shows "\<exists>s'. approve s oc adminIds fromId cid now =
            (if oc_answered oc then ConfessionApproved (next_number s) else ApprovalFailed, s')
     \<and> map_option confessionNumber (system_counters s') = Some (next_number s)
     \<and> confessions s' = (confessions s)(cid \<mapsto> approved_as c (next_number s) now)
     \<and> comments s' =
         (if oc_posted oc then (comments s)(cid \<mapsto> new_thread cid (next_number s) (cf_text c))
          else comments s)
     \<and> user_cooldowns s' = user_cooldowns s \<and> user_rate_limits s' = user_rate_limits s"
proof -
  from getNext_commits [of now s] obtain d where
    g: "getNextConfessionNumber True now (system_counters s) = Inr (next_number s, Some d)"
    and n: "confessionNumber d = next_number s" by blast
  show ?thesis
    using assms g n
    by (simp add: approve_def Let_def postToChannel_def createCommentSection_def
          checkAchievements_fields updateReputation_fields approved_as_def new_thread_def)
qed

text \<open>
  Claim C2, as the code has it. The approval handler reads the confession but not its
  status. For every existing confession, whatever its status, an approval by an admin
  whose counter transaction commits allocates the next number, sets the status to
  approved and writes the new number over the confession's number. The handler refuses,
  and changes nothing, when the caller is no admin, when the confession does not exist,
  and when the transaction of the counter fails.
\<close>

theorem approve_any_status:
  "(isAdmin adminIds fromId \<and> confessions s cid = Some c \<and> oc_commits oc \<longrightarrow>
      (\<exists>s'. approve s oc adminIds fromId cid now =
            (if oc_answered oc then ConfessionApproved (next_number s) else ApprovalFailed, s')
         \<and> map_option confessionNumber (system_counters s') = Some (next_number s)
         \<and> confessions s' = (confessions s)(cid \<mapsto> approved_as c (next_number s) now)))
   \<and> (\<not> isAdmin adminIds fromId \<longrightarrow>
        approve s oc adminIds fromId cid now = (AccessDenied, s))
   \<and> (isAdmin adminIds fromId \<and> confessions s cid = None \<longrightarrow>
        approve s oc adminIds fromId cid now = (ConfessionNotFound, s))
   \<and> (isAdmin adminIds fromId \<and> confessions s cid = Some c \<and> \<not> oc_commits oc \<longrightarrow>
        approve s oc adminIds fromId cid now = (ApprovalFailed, s))"
proof (intro conjI impI)
  assume "isAdmin adminIds fromId \<and> confessions s cid = Some c \<and> oc_commits oc"
  then have a: "isAdmin adminIds fromId" "confessions s cid = Some c" "oc_commits oc"
    by simp_all
  from approve_ok [OF a, of now]
  show "\<exists>s'. approve s oc adminIds fromId cid now =
            (if oc_answered oc then ConfessionApproved (next_number s) else ApprovalFailed, s')
         \<and> map_option confessionNumber (system_counters s') = Some (next_number s)
         \<and> confessions s' = (confessions s)(cid \<mapsto> approved_as c (next_number s) now)"
    by blast
qed (simp_all add: approve_refused)

lemma isAdmin_99: "isAdmin [99] 99"
  by (simp add: isAdmin_def)

lemma next_number_eq:
  "map_option confessionNumber (system_counters s) = Some n \<Longrightarrow> next_number s = n + 1"
  by (auto simp: next_number_def split: option.splits)

text \<open>
  Claim C2 as stated fails: a second approval of the confession that the first one
  approved with number 1 succeeds, allocates number 2 and stores it in the confession.
\<close>

theorem approve_any_status_counterexample:
  "map_option cf_status
     (confessions (snd (approve one_pending all_ok [99] 99 (Confess 7 2000) 3000)) (Confess 7 2000))
     = Some Approved
   \<and> map_option cf_confessionNumber
     (confessions (snd (approve one_pending all_ok [99] 99 (Confess 7 2000) 3000)) (Confess 7 2000))
     = Some (Some 1)
   \<and> fst (approve (snd (approve one_pending all_ok [99] 99 (Confess 7 2000) 3000))
            all_ok [99] 99 (Confess 7 2000) 4000) = ConfessionApproved 2
   \<and> map_option cf_confessionNumber
     (confessions (snd (approve (snd (approve one_pending all_ok [99] 99 (Confess 7 2000) 3000))
            all_ok [99] 99 (Confess 7 2000) 4000)) (Confess 7 2000))
     = Some (Some 2)
   \<and> map_option confessionNumber
     (system_counters (snd (approve (snd (approve one_pending all_ok [99] 99 (Confess 7 2000) 3000))
            all_ok [99] 99 (Confess 7 2000) 4000)))
     = Some 2"
proof -
  have c0: "confessions one_pending (Confess 7 2000) =
              Some (pending_confession 7 (js ''hello world'') 2000)"
    by (simp add: one_pending_def)
  have ok: "oc_commits all_ok" "oc_answered all_ok" by (simp_all add: all_ok_def)
  have n0: "next_number one_pending = 1"
    by (simp add: next_number_def one_pending_def empty_store_def)
  from approve_ok [OF isAdmin_99 c0 ok(1), of 3000] obtain s1 where
    a1: "approve one_pending all_ok [99] 99 (Confess 7 2000) 3000 = (ConfessionApproved 1, s1)"
    and k1: "map_option confessionNumber (system_counters s1) = Some 1"
    and f1: "confessions s1 = (confessions one_pending)(Confess 7 2000 \<mapsto>
               approved_as (pending_confession 7 (js ''hello world'') 2000) 1 3000)"
    unfolding n0 using ok(2) by auto
  have c1: "confessions s1 (Confess 7 2000) =
              Some (approved_as (pending_confession 7 (js ''hello world'') 2000) 1 3000)"
    by (simp add: f1)
  have n1: "next_number s1 = 2" using next_number_eq [OF k1] by simp
  from approve_ok [OF isAdmin_99 c1 ok(1), of 4000] obtain s2 where
    a2: "approve s1 all_ok [99] 99 (Confess 7 2000) 4000 = (ConfessionApproved 2, s2)"
    and k2: "map_option confessionNumber (system_counters s2) = Some 2"
    and f2: "confessions s2 = (confessions s1)(Confess 7 2000 \<mapsto>
               approved_as (approved_as (pending_confession 7 (js ''hello world'') 2000) 1 3000)
                 2 4000)"
    unfolding n1 using ok(2) by auto
  show ?thesis
    by (simp add: a1 a2 k2 f1 f2 approved_as_def)
qed

theorem approve_any_status_witness:
  "fst (approve one_pending all_ok [99] 99 (Confess 7 2000) 3000) = ConfessionApproved 1
   \<and> approve one_pending all_ok [99] 98 (Confess 7 2000) 3000 = (AccessDenied, one_pending)
   \<and> approve one_pending all_ok [99] 99 (Confess 7 2001) 3000 = (ConfessionNotFound, one_pending)
   \<and> approve one_pending (all_ok\<lparr>oc_commits := False\<rparr>) [99] 99 (Confess 7 2000) 3000
       = (ApprovalFailed, one_pending)"
proof -
  have c0: "confessions one_pending (Confess 7 2000) =
              Some (pending_confession 7 (js ''hello world'') 2000)"
    by (simp add: one_pending_def)
  have c1: "confessions one_pending (Confess 7 2001) = None"
    by (simp add: one_pending_def empty_store_def)
  have n0: "next_number one_pending = 1"
    by (simp add: next_number_def one_pending_def empty_store_def)
  have na: "\<not> isAdmin [99] 98" by (simp add: isAdmin_def)
  show ?thesis
    using approve_any_status
        [where s = one_pending and oc = all_ok and adminIds = "[99]" and fromId = 99
           and cid = "Confess 7 2000" and now = 3000
           and c = "pending_confession 7 (js ''hello world'') 2000"]
      approve_any_status
        [where s = one_pending and oc = all_ok and adminIds = "[99]" and fromId = 98
           and cid = "Confess 7 2000" and now = 3000
           and c = "pending_confession 7 (js ''hello world'') 2000"]
      approve_any_status
        [where s = one_pending and oc = all_ok and adminIds = "[99]" and fromId = 99
           and cid = "Confess 7 2001" and now = 3000
           and c = "pending_confession 7 (js ''hello world'') 2000"]
      approve_any_status
        [where s = one_pending and oc = "all_ok\<lparr>oc_commits := False\<rparr>" and adminIds = "[99]"
           and fromId = 99 and cid = "Confess 7 2000" and now = 3000
           and c = "pending_confession 7 (js ''hello world'') 2000"]
      isAdmin_99 c0 c1 n0 na
    by (auto simp: all_ok_def)
qed

lemma recordComment_fields:
  "system_counters (recordComment s u t) = system_counters s"
  "confessions (recordComment s u t) = confessions s"
  "comments (recordComment s u t) = comments s"
  "users (recordComment s u t) = users s"
  "user_cooldowns (recordComment s u t) = user_cooldowns s"
  by (simp_all add: recordComment_def)

lemma addComment_short:
  "commentText = [] \<or> length (trim commentText) < 3 \<Longrightarrow>
   addComment s ses userId userName commentText co tc now tr = (CommentTooShort, s, ses)"
  by (simp add: addComment_def)

lemma addComment_limited:
  "\<not> (commentText = [] \<or> length (trim commentText) < 3) \<Longrightarrow>
   \<not> checkCommentRateLimit s userId 30000 3 tc \<Longrightarrow>
   addComment s ses userId userName commentText co tc now tr = (TooManyComments, s, ses)"
  by (simp add: addComment_def)

lemma addComment_no_id:
  "\<not> (commentText = [] \<or> length (trim commentText) < 3) \<Longrightarrow>
   checkCommentRateLimit s userId 30000 3 tc \<Longrightarrow> waitingForComment ses = None \<Longrightarrow>
   addComment s ses userId userName commentText co tc now tr = (CommentError, s, ses)"
  by (simp add: addComment_def)

lemma addComment_no_thread:
  "\<not> (commentText = [] \<or> length (trim commentText) < 3) \<Longrightarrow>
   checkCommentRateLimit s userId 30000 3 tc \<Longrightarrow> waitingForComment ses = Some cid \<Longrightarrow>
   comments s cid = None \<Longrightarrow>
   addComment s ses userId userName commentText co tc now tr = (ThreadNotFound, s, ses)"
  by (simp add: addComment_def)

lemma addComment_aborted:
  "\<not> (commentText = [] \<or> length (trim commentText) < 3) \<Longrightarrow>
   checkCommentRateLimit s userId 30000 3 tc \<Longrightarrow> waitingForComment ses = Some cid \<Longrightarrow>
   comments s cid = Some th \<Longrightarrow> \<not> co_commits co \<or> confessions s cid = None \<Longrightarrow>
   addComment s ses userId userName commentText co tc now tr = (CommentError, s, ses)"
  by (auto simp: addComment_def Let_def)

lemma addComment_ok:
  assumes "\<not> (commentText = [] \<or> length (trim commentText) < 3)"
    "checkCommentRateLimit s userId 30000 3 tc" "waitingForComment ses = Some cid"
    "comments s cid = Some th" "co_commits co" "confessions s cid = Some confession"
  shows "\<exists>s'. addComment s ses userId userName commentText co tc now tr =
            (if co_recorded co \<and> co_replied co then CommentAdded else CommentError, s',
             if co_recorded co \<and> co_replied co then ses\<lparr>waitingForComment := None\<rparr> else ses)
     \<and> comments s' =
         (comments s)(cid \<mapsto> commented th (commentData userId userName commentText now))
     \<and> confessions s' = (confessions s)(cid \<mapsto> counted confession)
     \<and> system_counters s' = system_counters s \<and> user_cooldowns s' = user_cooldowns s
     \<and> stamps s' userId =
         (if co_recorded co then arrayUnion (stamps s userId) tr else stamps s userId)"
  using assms
  by (simp add: addComment_def Let_def checkAchievements_fields updateReputation_fields
        recordComment_fields commented_def counted_def commentData_def
        stamps_def stamps_recordComment [unfolded stamps_def])

lemma addComment_cases:
  obtains
    (refused) r where "r \<noteq> CommentAdded"
      "addComment s ses userId userName commentText co tc now tr = (r, s, ses)"
      "r = ThreadNotFound \<longleftrightarrow>
         (\<not> (commentText = [] \<or> length (trim commentText) < 3)
          \<and> checkCommentRateLimit s userId 30000 3 tc
          \<and> (case waitingForComment ses of None \<Rightarrow> False | Some cid \<Rightarrow> comments s cid = None))"
  | (committed) cid th confession s' where
      "\<not> (commentText = [] \<or> length (trim commentText) < 3)"
      "checkCommentRateLimit s userId 30000 3 tc"
      "waitingForComment ses = Some cid" "comments s cid = Some th"
      "confessions s cid = Some confession" "co_commits co"
      "addComment s ses userId userName commentText co tc now tr =
         (if co_recorded co \<and> co_replied co then CommentAdded else CommentError, s',
          if co_recorded co \<and> co_replied co then ses\<lparr>waitingForComment := None\<rparr> else ses)"
      "comments s' =
         (comments s)(cid \<mapsto> commented th (commentData userId userName commentText now))"
      "confessions s' = (confessions s)(cid \<mapsto> counted confession)"
proof (cases "commentText = [] \<or> length (trim commentText) < 3")
  case True
  from addComment_short [OF True] True show ?thesis by (intro refused [of CommentTooShort]) auto
next
  case valid: False
  show ?thesis
  proof (cases "checkCommentRateLimit s userId 30000 3 tc")
    case False
    from addComment_limited [OF valid False] False show ?thesis
      by (intro refused [of TooManyComments]) auto
  next
    case allowed: True
    show ?thesis
    proof (cases "waitingForComment ses")
      case None
      from addComment_no_id [OF valid allowed None] None show ?thesis
        by (intro refused [of CommentError]) auto
    next
      case (Some cid)
      show ?thesis
      proof (cases "comments s cid")
        case None
        from addComment_no_thread [OF valid allowed Some None] valid allowed Some None
        show ?thesis by (intro refused [of ThreadNotFound]) auto
      next
        case th: (Some th)
        show ?thesis
        proof (cases "\<not> co_commits co \<or> confessions s cid = None")
          case True
          from addComment_aborted [OF valid allowed Some th True] Some th
          show ?thesis by (intro refused [of CommentError]) auto
        next
          case False
          then obtain confession where c: "co_commits co" "confessions s cid = Some confession"
            by auto
          from addComment_ok [OF valid allowed Some th c, where userName = userName
                 and now = now and tr = tr]
          obtain s' where
            "addComment s ses userId userName commentText co tc now tr =
               (if co_recorded co \<and> co_replied co then CommentAdded else CommentError, s',
                if co_recorded co \<and> co_replied co then ses\<lparr>waitingForComment := None\<rparr>
                else ses)"
            "comments s' =
               (comments s)(cid \<mapsto> commented th (commentData userId userName commentText now))"
            "confessions s' = (confessions s)(cid \<mapsto> counted confession)"
            by blast
          with valid allowed Some th c show ?thesis by (intro committed) auto
        qed
      qed
    qed
  qed
qed

lemma addComment_reply_not_found:
  "fst (addComment s ses userId userName commentText co tc now tr) = ThreadNotFound \<longleftrightarrow>
     (\<not> (commentText = [] \<or> length (trim commentText) < 3)
      \<and> checkCommentRateLimit s userId 30000 3 tc
      \<and> (case waitingForComment ses of None \<Rightarrow> False | Some cid \<Rightarrow> comments s cid = None))"
proof (cases rule: addComment_cases [of s ses userId userName commentText co tc now tr])
  case (refused r)
  then show ?thesis by simp
next
  case (committed cid th confession s')
  then show ?thesis by simp
qed

lemma addComment_dom:
  "dom (comments (fst (snd (addComment s ses userId userName commentText co tc now tr))))
     = dom (comments s)"
proof (cases rule: addComment_cases [of s ses userId userName commentText co tc now tr])
  case (refused r)
  then show ?thesis by simp
next
  case (committed cid th confession s')
  then show ?thesis by auto
qed

lemma handleConfession_comments:
  "comments (fst (snd (handleConfession s ses userId text replied t t'))) = comments s"
  by (simp add: handleConfession_def Let_def checkAchievements_fields setCooldown_def
        split: option.splits)

lemma handleRejection_comments:
  "comments (fst (snd (handleRejection s ses reason replied t))) = comments s"
  by (simp add: handleRejection_def split: option.splits)

lemma approve_comments:
  "comments (snd (approve s oc adminIds fromId cid t)) =
     (if isAdmin adminIds fromId \<and> confessions s cid \<noteq> None \<and> oc_commits oc \<and> oc_posted oc
      then (comments s)(cid \<mapsto>
             new_thread cid (next_number s) (cf_text (the (confessions s cid))))
      else comments s)"
proof (cases "isAdmin adminIds fromId")
  case False
  then show ?thesis by (simp add: approve_refused)
next
  case adm: True
  show ?thesis
  proof (cases "confessions s cid")
    case None
    with adm show ?thesis by (simp add: approve_refused)
  next
    case (Some c)
    show ?thesis
    proof (cases "oc_commits oc")
      case False
      with adm Some show ?thesis by (simp add: approve_refused)
    next
      case True
      from approve_ok [OF adm Some True, of t] show ?thesis
        using adm Some True by auto
    qed
  qed
qed














text \<open>
  Claim C4, as the code has it. A call of \<^verbatim>\<open>addComment\<close> replies that the confession
  was not found exactly when the comment passes the length check and the rate limit and
  no thread exists for the confession id. A thread is written by an approval only, and
  only when the post to the channel succeeded: then the thread of the confession is the
  new thread with no comments and total 0 (replacing a thread that was there). The
  submission, the rejection and \<^verbatim>\<open>addComment\<close> itself create no thread.
\<close>

theorem thread_exists_iff_posted:
  "(fst (addComment s ses userId userName commentText co tc now tr) = ThreadNotFound \<longleftrightarrow>
     (\<not> (commentText = [] \<or> length (trim commentText) < 3)
      \<and> checkCommentRateLimit s userId 30000 3 tc
      \<and> (case waitingForComment ses of None \<Rightarrow> False | Some cid \<Rightarrow> comments s cid = None)))
   \<and> comments (snd (approve s oc adminIds fromId cid t)) =
       (if isAdmin adminIds fromId \<and> confessions s cid \<noteq> None \<and> oc_commits oc \<and> oc_posted oc
        then (comments s)(cid \<mapsto>
               new_thread cid (next_number s) (cf_text (the (confessions s cid))))
        else comments s)
   \<and> comments (fst (snd (handleConfession s ses userId text replied t t'))) = comments s
   \<and> comments (fst (snd (handleRejection s ses reason replied t))) = comments s
   \<and> dom (comments (fst (snd (addComment s ses userId userName commentText co tc now tr))))
       = dom (comments s)"
proof (intro conjI)
  show "fst (addComment s ses userId userName commentText co tc now tr) = ThreadNotFound \<longleftrightarrow>
     (\<not> (commentText = [] \<or> length (trim commentText) < 3)
      \<and> checkCommentRateLimit s userId 30000 3 tc
      \<and> (case waitingForComment ses of None \<Rightarrow> False | Some cid \<Rightarrow> comments s cid = None))"
    by (rule addComment_reply_not_found)
  show "comments (snd (approve s oc adminIds fromId cid t)) =
       (if isAdmin adminIds fromId \<and> confessions s cid \<noteq> None \<and> oc_commits oc \<and> oc_posted oc
        then (comments s)(cid \<mapsto>
               new_thread cid (next_number s) (cf_text (the (confessions s cid))))
        else comments s)"
    by (rule approve_comments)
  show "comments (fst (snd (handleConfession s ses userId text replied t t'))) = comments s"
    by (rule handleConfession_comments)
  show "comments (fst (snd (handleRejection s ses reason replied t))) = comments s"
    by (rule handleRejection_comments)
  show "dom (comments (fst (snd (addComment s ses userId userName commentText co tc now tr))))
       = dom (comments s)"
    by (rule addComment_dom)
qed


lemma one_pending_facts:
  "confessions one_pending (Confess 7 2000) = Some (pending_confession 7 (js ''hello world'') 2000)"
  "comments one_pending = Map.empty" "user_rate_limits one_pending = Map.empty"
  "next_number one_pending = 1"
  by (simp_all add: one_pending_def empty_store_def next_number_def)

lemma one_approved_facts:
  "confessions one_approved (Confess 7 2000) =
     Some (approved_as (pending_confession 7 (js ''hello world'') 2000) 1 3000)"
  "comments one_approved (Confess 7 2000) =
     Some (new_thread (Confess 7 2000) 1 (cf_text (pending_confession 7 (js ''hello world'') 2000)))"
  "user_rate_limits one_approved = Map.empty"
proof -
  have ok: "oc_commits all_ok" by (simp add: all_ok_def)
  from approve_ok [OF isAdmin_99 one_pending_facts(1) ok, of 3000]
  show "confessions one_approved (Confess 7 2000) =
     Some (approved_as (pending_confession 7 (js ''hello world'') 2000) 1 3000)"
    "comments one_approved (Confess 7 2000) =
     Some (new_thread (Confess 7 2000) 1 (cf_text (pending_confession 7 (js ''hello world'') 2000)))"
    "user_rate_limits one_approved = Map.empty"
    by (auto simp: one_approved_def one_pending_facts all_ok_def)
qed

lemma one_unposted_facts:
  "confessions one_unposted (Confess 7 2000) =
     Some (approved_as (pending_confession 7 (js ''hello world'') 2000) 1 3000)"
  "comments one_unposted (Confess 7 2000) = None"
  "user_rate_limits one_unposted = Map.empty"
proof -
  have ok: "oc_commits not_posted" by (simp add: not_posted_def)
  from approve_ok [OF isAdmin_99 one_pending_facts(1) ok, of 3000]
  show "confessions one_unposted (Confess 7 2000) =
     Some (approved_as (pending_confession 7 (js ''hello world'') 2000) 1 3000)"
    "comments one_unposted (Confess 7 2000) = None"
    "user_rate_limits one_unposted = Map.empty"
    by (auto simp: one_unposted_def one_pending_facts not_posted_def)
qed

lemma bob_valid: "\<not> (rq_text bob = [] \<or> length (trim (rq_text bob)) < 3)"
  by (simp add: bob_def js_def trim_def is_space_def)

lemma bob_session: "waitingForComment (rq_session bob) = Some (Confess 7 2000)"
  by (simp add: bob_def)

lemma no_limit_doc: "user_rate_limits s = Map.empty \<Longrightarrow> checkCommentRateLimit s u w m t"
  by (simp add: checkCommentRateLimit_def)

text \<open>
  Claim C4 as stated fails: when the channel refuses the post, the confession is approved
  with its number, no thread exists for it, and a comment on it is answered with not
  found.
\<close>

theorem thread_exists_iff_posted_counterexample:
  "map_option cf_status (confessions one_unposted (Confess 7 2000)) = Some Approved
   \<and> map_option cf_confessionNumber (confessions one_unposted (Confess 7 2000)) = Some (Some 1)
   \<and> comments one_unposted (Confess 7 2000) = None
   \<and> fst (addComment one_unposted (rq_session bob) 8 (js ''Bob'') (rq_text bob) delivered
            5000 5000 5000) = ThreadNotFound"
proof -
  have "addComment one_unposted (rq_session bob) 8 (js ''Bob'') (rq_text bob) delivered 5000 5000 5000
        = (ThreadNotFound, one_unposted, rq_session bob)"
    by (rule addComment_no_thread [OF bob_valid no_limit_doc [OF one_unposted_facts(3)]
          bob_session one_unposted_facts(2), where userId = 8 and tc = 5000])
  then show ?thesis by (simp add: one_unposted_facts approved_as_def)
qed

theorem thread_exists_iff_posted_witness:
  "map_option th_totalComments (comments one_approved (Confess 7 2000)) = Some 0
   \<and> map_option th_comments (comments one_approved (Confess 7 2000)) = Some []
   \<and> fst (addComment one_approved (rq_session bob) 8 (js ''Bob'') (rq_text bob) delivered
            5000 5000 5000) \<noteq> ThreadNotFound
   \<and> fst (addComment one_pending (rq_session bob) 8 (js ''Bob'') (rq_text bob) delivered
            5000 5000 5000) = ThreadNotFound"
  using thread_exists_iff_posted
      [where s = one_pending and oc = all_ok and adminIds = "[99]" and fromId = 99
         and cid = "Confess 7 2000" and t = 3000 and ses = "rq_session bob" and userId = 8
         and userName = "js ''Bob''" and commentText = "rq_text bob" and co = delivered
         and tc = 5000 and now = 5000 and tr = 5000]
    thread_exists_iff_posted
      [where s = one_approved and oc = all_ok and adminIds = "[99]" and fromId = 99
         and cid = "Confess 7 2000" and t = 3000 and ses = "rq_session bob" and userId = 8
         and userName = "js ''Bob''" and commentText = "rq_text bob" and co = delivered
         and tc = 5000 and now = 5000 and tr = 5000]
    bob_valid bob_session no_limit_doc [OF one_pending_facts(3)]
    no_limit_doc [OF one_approved_facts(3)] isAdmin_99
  by (simp add: one_approved_facts one_pending_facts new_thread_def
        one_approved_def [symmetric] all_ok_def)












end
